theory Spec2Isabelle
  imports Main
begin

section \<open>JavaScript values and string helpers\<close>

text \<open>
  Strings are byte lists: a JavaScript string is modelled by its UTF-8 encoding, which is
  what \<^verbatim>\<open>encodeURIComponent\<close> and \<^verbatim>\<open>URLSearchParams\<close> percent-encode.
  An optional property (\<^verbatim>\<open>code?: string\<close>) is a \<open>string option\<close>, \<open>None\<close> being
  \<^verbatim>\<open>undefined\<close>.
\<close>

definition truthy :: "string option \<Rightarrow> bool" where
  \<comment> \<open>\<^verbatim>\<open>if (x)\<close> on a \<^verbatim>\<open>string | undefined\<close>: undefined and the empty string are falsy.\<close>
  "truthy x = (case x of None \<Rightarrow> False | Some s \<Rightarrow> s \<noteq> [])"

definition or_else :: "string option \<Rightarrow> string \<Rightarrow> string" where
  \<comment> \<open>\<^verbatim>\<open>x || d\<close> with \<^verbatim>\<open>d\<close> a string.\<close>
  "or_else x d = (case x of None \<Rightarrow> d | Some s \<Rightarrow> if s = [] then d else s)"

definition strict_neq :: "string option \<Rightarrow> string option \<Rightarrow> bool" where
  \<comment> \<open>\<^verbatim>\<open>a !== b\<close> for \<^verbatim>\<open>a: string | null\<close> and \<^verbatim>\<open>b: string | undefined\<close>:
      \<^verbatim>\<open>null\<close> is never strictly equal to a string or to \<^verbatim>\<open>undefined\<close>.\<close>
  "strict_neq a b = (case a of None \<Rightarrow> True
                     | Some x \<Rightarrow> (case b of None \<Rightarrow> True | Some y \<Rightarrow> x \<noteq> y))"

definition str_includes :: "string \<Rightarrow> char \<Rightarrow> bool" where
  \<comment> \<open>\<^verbatim>\<open>s.includes("/")\<close> for a one-character needle.\<close>
  "str_includes s c = (c \<in> set s)"

fun split_on :: "char \<Rightarrow> string \<Rightarrow> string list" where
  \<comment> \<open>\<^verbatim>\<open>s.split(d)\<close> for a one-character separator.\<close>
  "split_on d [] = [[]]"
| "split_on d (c # cs) =
     (if c = d then [] # split_on d cs
      else (case split_on d cs of [] \<Rightarrow> [[c]] | p # ps \<Rightarrow> (c # p) # ps))"

definition digit_char :: "nat \<Rightarrow> char" where
  \<comment> \<open>The decimal digit for \<open>n < 10\<close>.\<close>
  "digit_char n = ''0123456789'' ! n"

fun show_nat :: "nat \<Rightarrow> string" where
  \<comment> \<open>A natural number in a template literal: its decimal digits.\<close>
  "show_nat n = (if n < 10 then [digit_char n] else show_nat (n div 10) @ [digit_char (n mod 10)])"

definition show_int :: "int \<Rightarrow> string" where
  "show_int i = (if i < 0 then CHR ''-'' # show_nat (nat (- i)) else show_nat (nat i))"

definition is_alnum :: "char \<Rightarrow> bool" where
  "is_alnum c = (let n = (of_char c :: nat) in
     (48 \<le> n \<and> n \<le> 57) \<or> (65 \<le> n \<and> n \<le> 90) \<or> (97 \<le> n \<and> n \<le> 122))"

definition hex_digit :: "nat \<Rightarrow> char" where
  \<comment> \<open>The upper-case hexadecimal digit for \<open>n < 16\<close>.\<close>
  "hex_digit n = ''0123456789ABCDEF'' ! n"

definition percent_encode :: "char \<Rightarrow> string" where
  "percent_encode c = (let n = (of_char c :: nat) in
     [CHR ''%'', hex_digit (n div 16), hex_digit (n mod 16)])"

definition encodeURIComponent :: "string \<Rightarrow> string" where
  \<comment> \<open>ECMAScript \<^verbatim>\<open>encodeURIComponent\<close>: every byte is escaped except letters, digits
      and \<^verbatim>\<open>- _ . ! ~ * ' ( )\<close>.\<close>
  "encodeURIComponent s =
     concat (map (\<lambda>c. if is_alnum c \<or> c \<in> set ''-_.!~*'' \<or> c = CHR 0x27 \<or> c \<in> set ''()''
                       then [c] else percent_encode c) s)"

definition form_urlencode :: "string \<Rightarrow> string" where
  \<comment> \<open>The \<^verbatim>\<open>application/x-www-form-urlencoded\<close> byte serializer used by
      \<^verbatim>\<open>URLSearchParams.prototype.toString\<close>: letters, digits and \<^verbatim>\<open>* - . _\<close> stay,
      a space becomes \<^verbatim>\<open>+\<close>, every other byte is escaped.\<close>
  "form_urlencode s =
     concat (map (\<lambda>c. if is_alnum c \<or> c \<in> set ''*-._'' then [c]
                       else if c = CHR '' '' then ''+''
                       else percent_encode c) s)"

fun URLSearchParams_toString :: "(string \<times> string) list \<Rightarrow> string" where
  \<comment> \<open>\<^verbatim>\<open>new URLSearchParams({k1: v1, k2: v2}).toString()\<close>, the pairs in insertion order.\<close>
  "URLSearchParams_toString [] = []"
| "URLSearchParams_toString [(k, v)] = form_urlencode k @ ''='' @ form_urlencode v"
| "URLSearchParams_toString ((k, v) # kvs) =
     form_urlencode k @ ''='' @ form_urlencode v @ ''&'' @ URLSearchParams_toString kvs"

datatype thrown =
    ErrorObj string          \<comment> \<open>an \<^verbatim>\<open>Error\<close> instance, with its message\<close>
  | ThrownString string      \<comment> \<open>a thrown string\<close>
  | ThrownObject "string option"
      \<comment> \<open>another object; its \<^verbatim>\<open>message\<close> property when that is a string\<close>
  | ThrownOther              \<comment> \<open>anything else (a number, \<^verbatim>\<open>null\<close>, ...)\<close>

section \<open>Observable effects\<close>

datatype level = Info | Warn | Err

datatype event =
    Log level "(string \<times> string) list" string
      \<comment> \<open>\<^verbatim>\<open>server.log.<level>(fields, message)\<close>; the fields rendered as strings\<close>
  | ConsoleError string string thrown
      \<comment> \<open>\<^verbatim>\<open>console.error(label, message, error)\<close>\<close>
  | ClearCookie string string
      \<comment> \<open>\<^verbatim>\<open>reply.clearCookie(name, {path})\<close>\<close>
  | Redirect string
      \<comment> \<open>\<^verbatim>\<open>reply.redirect(url)\<close>\<close>
  | TokenRequest string string string
      \<comment> \<open>\<^verbatim>\<open>oauthClient.getToken({code, redirect_uri, scope})\<close>\<close>
  | FetchRequest string "(string \<times> string) list"
      \<comment> \<open>\<^verbatim>\<open>fetch(url, {method: "GET", headers})\<close>\<close>

section \<open>Configuration (config.ts)\<close>

record github_config =
  clientId :: string
  clientSecret :: string
  callbackUrl :: string
  scope :: string
  repo :: string

record rate_limit_config =
  requests :: string
  windowMinutes :: string

record config =
  nodeEnv :: string
  port :: string
  host :: string
  github :: github_config
  frontendUrl :: string
  sessionSecret :: string
  rateLimit :: rate_limit_config
  logLevel :: string

definition getConfigValue :: "(string \<rightharpoonup> string) \<Rightarrow> string \<Rightarrow> string option \<Rightarrow> thrown + string" where
  \<comment> \<open>\<^verbatim>\<open>process.env[key]\<close> is the lookup \<open>env key\<close>; an empty value is falsy and
      falls through to the default, like an unset one.\<close>
  "getConfigValue env key defaultValue =
     (let fallback = (case defaultValue of
              Some d \<Rightarrow> Inr d
            | None \<Rightarrow> Inl (ErrorObj (''Missing environment variable: '' @ key @
                                      '' and no default value provided.'')))
      in (case env key of
            None \<Rightarrow> fallback
          | Some v \<Rightarrow> if v \<noteq> [] then Inr v else fallback))"

definition and_then :: "'e + 'a \<Rightarrow> ('a \<Rightarrow> 'e + 'b) \<Rightarrow> 'e + 'b" where
  \<comment> \<open>Sequencing of evaluations that may throw.\<close>
  "and_then r f = (case r of Inl e \<Rightarrow> Inl e | Inr x \<Rightarrow> f x)"

definition load_config :: "(string \<rightharpoonup> string) \<Rightarrow> thrown + config" where
  \<comment> \<open>The module-level \<^verbatim>\<open>export const config = {...}\<close>, evaluated once when the
      process starts; the properties are evaluated in source order and the first throw
      aborts the module load. The numeric settings are kept as the strings that
      \<^verbatim>\<open>parseInt\<close> receives (\<^verbatim>\<open>parseInt\<close> does not throw).\<close>
  "load_config env =
     and_then (getConfigValue env ''NODE_ENV'' (Some ''development'')) (\<lambda>v_nodeEnv.
     and_then (getConfigValue env ''PORT'' (Some ''3000'')) (\<lambda>v_port.
     and_then (getConfigValue env ''HOST'' (Some ''0.0.0.0'')) (\<lambda>v_host.
     and_then (getConfigValue env ''GITHUB_CLIENT_ID'' None) (\<lambda>v_clientId.
     and_then (getConfigValue env ''GITHUB_CLIENT_SECRET'' None) (\<lambda>v_clientSecret.
     and_then (getConfigValue env ''GITHUB_CALLBACK_URL'' None) (\<lambda>v_callbackUrl.
     and_then (getConfigValue env ''GITHUB_SCOPE'' (Some ''repo'')) (\<lambda>v_scope.
     and_then (getConfigValue env ''GITHUB_REPO'' None) (\<lambda>v_repo.
     and_then (getConfigValue env ''FRONTEND_URL'' None) (\<lambda>v_frontendUrl.
     and_then (getConfigValue env ''SESSION_SECRET''
                 (Some ''a_very_strong_secret_key_that_should_be_changed'')) (\<lambda>v_sessionSecret.
     and_then (getConfigValue env ''RATE_LIMIT_REQUESTS'' (Some ''100'')) (\<lambda>v_requests.
     and_then (getConfigValue env ''RATE_LIMIT_WINDOW_MINUTES'' (Some ''60'')) (\<lambda>v_window.
     and_then (getConfigValue env ''LOG_LEVEL'' (Some ''info'')) (\<lambda>v_logLevel.
       Inr \<lparr> nodeEnv = v_nodeEnv, port = v_port, host = v_host,
             github = \<lparr> clientId = v_clientId, clientSecret = v_clientSecret,
                        callbackUrl = v_callbackUrl, scope = v_scope, repo = v_repo \<rparr>,
             frontendUrl = v_frontendUrl, sessionSecret = v_sessionSecret,
             rateLimit = \<lparr> requests = v_requests, windowMinutes = v_window \<rparr>,
             logLevel = v_logLevel \<rparr>)))))))))))))"

section \<open>The provider, the cookie plugin and the OAuth client\<close>

text \<open>
  What lies outside this repository is a parameter of the model: the cookie plugin's
  \<^verbatim>\<open>unsignCookie\<close>, the OAuth client's \<^verbatim>\<open>getToken\<close> and \<^verbatim>\<open>fetch\<close>, each a function
  of what the program passes to it. A response body is typed as the source casts it
  (\<^verbatim>\<open>as GitHubUserProfile\<close>, \<^verbatim>\<open>as GitHubUserPermission\<close>), so \<^verbatim>\<open>fetch\<close> appears once for
  each of the two endpoints the program calls.
\<close>

record 'a response =
  status :: nat
  body_text :: "thrown + string"   \<comment> \<open>what \<^verbatim>\<open>await response.text()\<close> gives\<close>
  body_json :: "thrown + 'a"       \<comment> \<open>what \<^verbatim>\<open>await response.json()\<close> gives, at the type of the cast\<close>

definition ok :: "'a response \<Rightarrow> bool" where
  \<comment> \<open>\<^verbatim>\<open>response.ok\<close>: the status is in the range 200 to 299.\<close>
  "ok r = (200 \<le> status r \<and> status r \<le> 299)"

record GitHubUser =
  login :: string
  user_id :: int

record GitHubUserPermission =
  permission :: string
     \<comment> \<open>declared as a union of literals; the JSON can carry any string\<close>
  role_name :: string
  user :: GitHubUser

type_synonym GitHubUserProfile = GitHubUser

datatype access_token_field =
    TokenString string   \<comment> \<open>\<^verbatim>\<open>typeof token.access_token === "string"\<close>\<close>
  | TokenNotString       \<comment> \<open>missing, or of any other type\<close>

record unsign_result =
  valid :: bool
  renew :: bool
  cookie_value :: "string option"   \<comment> \<open>\<^verbatim>\<open>value: string | null\<close>\<close>

record world =
  unsignCookie :: "string \<Rightarrow> unsign_result"
     \<comment> \<open>\<^verbatim>\<open>request.unsignCookie\<close> of @fastify/cookie, with the server's secret\<close>
  oauth_getToken :: "string \<Rightarrow> string \<Rightarrow> string \<Rightarrow> thrown + access_token_field"
     \<comment> \<open>\<^verbatim>\<open>oauthClient.getToken({code, redirect_uri, scope})\<close> of simple-oauth2: it rejects,
        or resolves to an object whose \<^verbatim>\<open>token.access_token\<close> is read\<close>
  fetch_profile :: "string \<Rightarrow> (string \<times> string) list \<Rightarrow> thrown + GitHubUserProfile response"
     \<comment> \<open>\<^verbatim>\<open>fetch\<close> as used by getGitHubUser\<close>
  fetch_permission :: "string \<Rightarrow> (string \<times> string) list \<Rightarrow> thrown + GitHubUserPermission response"
     \<comment> \<open>\<^verbatim>\<open>fetch\<close> as used by verifyUserPermission\<close>

definition catch_message :: "string \<Rightarrow> thrown \<Rightarrow> string" where
  \<comment> \<open>The catch blocks of github.ts: the message of an Error, a thrown string itself,
      the default otherwise.\<close>
  "catch_message dflt e = (case e of ErrorObj m \<Rightarrow> m | ThrownString s \<Rightarrow> s | _ \<Rightarrow> dflt)"

definition api_headers :: "string \<Rightarrow> (string \<times> string) list" where
  "api_headers accessToken =
     [(''Authorization'', ''token '' @ accessToken),
      (''Accept'', ''application/vnd.github.v3+json''),
      (''User-Agent'', ''DecapCMS-GitHub-OAuth-App'')]"

section \<open>utils/github.ts\<close>

definition verifyUserPermission_catch ::
  "string \<Rightarrow> string \<Rightarrow> string \<Rightarrow> thrown \<Rightarrow> event list \<times> (thrown + bool)" where
  "verifyUserPermission_catch owner repoName username e =
     ([Log Err [(''error'', catch_message ''Unknown error during permission verification'' e),
                (''username'', username), (''repo'', owner @ ''/'' @ repoName)]
           ''Error verifying GitHub user permission''],
      Inr False)"

definition repo_owner :: "config \<Rightarrow> string" where
  \<comment> \<open>\<^verbatim>\<open>owner\<close> of \<^verbatim>\<open>const [owner, repoName] = repo.split("/")\<close>; a missing element is
      \<^verbatim>\<open>undefined\<close>, which a template literal prints as that word.\<close>
  "repo_owner cfg =
     (case split_on CHR ''/'' (repo (github cfg)) of [] \<Rightarrow> ''undefined'' | x # _ \<Rightarrow> x)"

definition repo_name :: "config \<Rightarrow> string" where
  \<comment> \<open>\<^verbatim>\<open>repoName\<close> of the same destructuring.\<close>
  "repo_name cfg =
     (case split_on CHR ''/'' (repo (github cfg)) of _ # y # _ \<Rightarrow> y | _ \<Rightarrow> ''undefined'')"

definition permission_url :: "config \<Rightarrow> string \<Rightarrow> string" where
  "permission_url cfg username =
     ''https://api.github.com/repos/'' @ repo_owner cfg @ ''/'' @ repo_name cfg @
     ''/collaborators/'' @ username @ ''/permission''"

definition verifyUserPermission ::
  "config \<Rightarrow> world \<Rightarrow> string \<Rightarrow> string \<Rightarrow> event list \<times> (thrown + bool)" where
  "verifyUserPermission cfg w accessToken username =
     (if \<not> str_includes (repo (github cfg)) CHR ''/'' then
        ([], Inl (ErrorObj ''Invalid GITHUB_REPO format. Expected owner/repo.''))
      else
        let owner = repo_owner cfg;
            repoName = repo_name cfg;
            url = permission_url cfg username;
            call = FetchRequest url (api_headers accessToken);
            handler = (\<lambda>evs e.
               let (evs', r) = verifyUserPermission_catch owner repoName username e
               in (evs @ evs', r))
        in (case fetch_permission w url (api_headers accessToken) of
              Inl e \<Rightarrow> handler [call] e
            | Inr response \<Rightarrow>
                if \<not> ok response then
                  (case body_text response of
                     Inl e \<Rightarrow> handler [call] e
                   | Inr errorBody \<Rightarrow>
                       let logged = [call,
                             Log Err [(''status'', show_nat (status response)), (''url'', url),
                                      (''errorBody'', errorBody), (''username'', username)]
                               (''GitHub API error checking permission for user '' @ username @
                                '' on repo '' @ owner @ ''/'' @ repoName)]
                       in if status response = 404 then (logged, Inr False)
                          else handler logged
                                 (ErrorObj (''Failed to verify user permission. Status: '' @
                                            show_nat (status response))))
                else
                  (case body_json response of
                     Inl e \<Rightarrow> handler [call] e
                   | Inr data \<Rightarrow>
                       let hasWritePermission =
                             (permission data \<in> set [''admin'', ''write'', ''maintain''])
                       in ([call,
                            Log Info [(''username'', username),
                                      (''repo'', owner @ ''/'' @ repoName),
                                      (''permission'', permission data),
                                      (''hasWritePermission'',
                                         if hasWritePermission then ''true'' else ''false'')]
                              (''User permission check result for '' @ username)],
                           Inr hasWritePermission))))"

definition getGitHubUser_catch :: "thrown \<Rightarrow> event list \<times> GitHubUserProfile option" where
  "getGitHubUser_catch e =
     ([Log Err [(''error'', catch_message ''Unknown error during user profile fetch'' e)]
           ''Error fetching GitHub user profile''],
      None)"

definition getGitHubUser :: "world \<Rightarrow> string \<Rightarrow> event list \<times> GitHubUserProfile option" where
  "getGitHubUser w accessToken =
     (let url = ''https://api.github.com/user'';
          call = FetchRequest url (api_headers accessToken);
          handler = (\<lambda>e. let (evs', r) = getGitHubUser_catch e in (call # evs', r))
      in (case fetch_profile w url (api_headers accessToken) of
            Inl e \<Rightarrow> handler e
          | Inr response \<Rightarrow>
              if \<not> ok response then
                (case body_text response of
                   Inl e \<Rightarrow> handler e
                 | Inr errorBody \<Rightarrow>
                     ([call,
                       Log Err [(''status'', show_nat (status response)), (''url'', url),
                                (''errorBody'', errorBody)]
                         ''GitHub API error fetching user profile''],
                      None))
              else
                (case body_json response of
                   Inl e \<Rightarrow> handler e
                 | Inr userProfile \<Rightarrow>
                     ([call,
                       Log Info [(''userId'', show_int (user_id userProfile)),
                                 (''login'', login userProfile)]
                         ''Successfully fetched GitHub user profile''],
                      Some userProfile))))"

section \<open>utils/oauth.ts\<close>

definition getToken_catch :: "thrown \<Rightarrow> event list \<times> (thrown + string)" where
  "getToken_catch e =
     (let message = (case e of
                       ErrorObj m \<Rightarrow> m
                     | ThrownString s \<Rightarrow> s
                     | ThrownObject (Some m) \<Rightarrow> m
                     | _ \<Rightarrow> ''Unknown error during token exchange'')
      in ([ConsoleError ''Access Token Error Details:'' message e],
          Inl (ErrorObj (''Failed to obtain access token from GitHub: '' @ message))))"

definition getToken :: "config \<Rightarrow> world \<Rightarrow> string \<Rightarrow> event list \<times> (thrown + string)" where
  "getToken cfg w c =
     (let redirect_uri = callbackUrl (github cfg);
          sc = scope (github cfg);
          call = TokenRequest c redirect_uri sc;
          handler = (\<lambda>e. let (evs', r) = getToken_catch e in (call # evs', r))
      in (case oauth_getToken w c redirect_uri sc of
            Inl e \<Rightarrow> handler e
          | Inr (TokenString t) \<Rightarrow> ([call], Inr t)
          | Inr TokenNotString \<Rightarrow>
              handler (ErrorObj
                ''Access token received from GitHub is not in the expected string format.'')))"

section \<open>routes/callback.ts\<close>

record callback_query =
  code :: "string option"
  state :: "string option"
  error :: "string option"
  error_description :: "string option"

record request =
  query :: callback_query
  cookies :: "string \<rightharpoonup> string"   \<comment> \<open>\<^verbatim>\<open>request.cookies\<close>: raw cookie values by name\<close>

definition error_url :: "config \<Rightarrow> string \<Rightarrow> string" where
  \<comment> \<open>The recurring \<^verbatim>\<open>`/error?${errorParams.toString()}`\<close> with
      \<^verbatim>\<open>errorParams = new URLSearchParams({error: encodeURIComponent(message),
      origin: config.frontendUrl})\<close>.\<close>
  "error_url cfg message =
     ''/error?'' @
       URLSearchParams_toString [(''error'', encodeURIComponent message),
                                 (''origin'', frontendUrl cfg)]"

definition error_redirect :: "config \<Rightarrow> string \<Rightarrow> event" where
  "error_redirect cfg message = Redirect (error_url cfg message)"

definition success_url :: "config \<Rightarrow> string \<Rightarrow> string" where
  \<comment> \<open>\<^verbatim>\<open>`/success?${successParams.toString()}`\<close> with
      \<^verbatim>\<open>successParams = new URLSearchParams({token: accessToken, origin: config.frontendUrl})\<close>.\<close>
  "success_url cfg accessToken =
     ''/success?'' @
       URLSearchParams_toString [(''token'', accessToken), (''origin'', frontendUrl cfg)]"

definition success_redirect :: "config \<Rightarrow> string \<Rightarrow> event" where
  "success_redirect cfg accessToken = Redirect (success_url cfg accessToken)"

definition callback_catch :: "config \<Rightarrow> thrown \<Rightarrow> event list" where
  \<comment> \<open>The catch block of the handler. The stack of an Error is not modelled; a thrown
      value that is not an Error is logged as its text, when it has one.\<close>
  "callback_catch cfg err =
     (let callbackErrorMessage = ''An internal error occurred during callback processing.''
      in [(case err of
             ErrorObj m \<Rightarrow> Log Err [(''error'', m)] ''Error in /callback route processing''
           | _ \<Rightarrow> Log Err [(''error'', catch_message [] err)]
                    ''An unknown error occurred in /callback route processing''),
          error_redirect cfg callbackErrorMessage])"

definition callback_try :: "config \<Rightarrow> world \<Rightarrow> string \<Rightarrow> event list" where
  \<comment> \<open>The try block of the handler, entered with a truthy \<^verbatim>\<open>code\<close>.\<close>
  "callback_try cfg w c =
     (let ev0 = [Log Info [] ''Exchanging authorization code for access token...''];
          (ev1, tok) = getToken cfg w c
      in (case tok of
            Inl err \<Rightarrow> ev0 @ ev1 @ callback_catch cfg err
          | Inr accessToken \<Rightarrow>
              let ev2 = [Log Info [] ''Access token obtained successfully.''];
                  (ev3, u) = getGitHubUser w accessToken
              in (case u of
                    None \<Rightarrow>
                      ev0 @ ev1 @ ev2 @ ev3 @
                      [Log Err [] ''Failed to fetch GitHub user profile.'',
                       error_redirect cfg ''Failed to fetch user profile from GitHub.'']
                  | Some githubUser \<Rightarrow>
                      let ev4 = [Log Info [] (''GitHub user profile fetched: '' @ login githubUser),
                                 Log Info [] (''Verifying repository permissions for user: '' @
                                    login githubUser @ '' on repo: '' @ repo (github cfg))];
                          (ev5, p) = verifyUserPermission cfg w accessToken (login githubUser)
                      in (case p of
                            Inl err \<Rightarrow> ev0 @ ev1 @ ev2 @ ev3 @ ev4 @ ev5 @ callback_catch cfg err
                          | Inr hasPermission \<Rightarrow>
                              ev0 @ ev1 @ ev2 @ ev3 @ ev4 @ ev5 @
                              (if hasPermission then
                                 [Log Info [] (''User '' @ login githubUser @
                                    '' has sufficient permissions for '' @ repo (github cfg) @ ''.''),
                                  success_redirect cfg accessToken]
                               else
                                 [Log Warn [] (''User '' @ login githubUser @
                                    '' does NOT have sufficient permissions for '' @
                                    repo (github cfg) @ ''.''),
                                  error_redirect cfg
                                    ''Access Denied: You do not have sufficient permissions for the configured repository.''])))))"

definition state_check_fails :: "unsign_result \<Rightarrow> string option \<Rightarrow> bool" where
  \<comment> \<open>The condition of the first \<^verbatim>\<open>if\<close>: \<^verbatim>\<open>!queryState || !cookieState ||
      !cookieState.valid || cookieState.value !== queryState\<close>. The result of
      \<^verbatim>\<open>unsignCookie\<close> is an object, so \<^verbatim>\<open>!cookieState\<close> is false.\<close>
  "state_check_fails cookieState queryState =
     (\<not> truthy queryState \<or> \<not> valid cookieState \<or>
      strict_neq (cookie_value cookieState) queryState)"

definition callback :: "config \<Rightarrow> world \<Rightarrow> request \<Rightarrow> event list" where
  \<comment> \<open>The handler of \<^verbatim>\<open>GET /callback\<close>: the effects it performs, in order.\<close>
  "callback cfg w request =
     (let queryState = state (query request);
          cookieState = unsignCookie w (or_else (cookies request ''oauth_state'') []);
          cleared = [ClearCookie ''oauth_state'' ''/'']
      in if state_check_fails cookieState queryState then
           let errorMessage = (if \<not> valid cookieState
                               then ''Invalid state cookie signature.''
                               else ''State parameter mismatch or missing.'')
           in cleared @
              [Log Warn []
                 ''Invalid OAuth state parameter or cookie mismatch. Potential CSRF attack.'',
               error_redirect cfg (''CSRF validation failed: '' @ errorMessage)]
         else
           let validated = cleared @ [Log Info [] ''OAuth state validated successfully.'']
           in if truthy (error (query request)) then
                validated @
                [Log Err [] (''OAuth Error from GitHub: '' @ or_else (error (query request)) [] @
                             '' - '' @ (case error_description (query request) of
                                          None \<Rightarrow> ''undefined'' | Some d \<Rightarrow> d)),
                 error_redirect cfg
                   (or_else (error_description (query request))
                      ''An error occurred during GitHub authentication.'')]
              else if \<not> truthy (code (query request)) then
                validated @
                [Log Err [] ''No authorization code received from GitHub.'',
                 error_redirect cfg ''Authorization code missing from GitHub callback.'']
              else
                validated @ callback_try cfg w (or_else (code (query request)) []))"

definition redirects :: "event list \<Rightarrow> string list" where
  \<comment> \<open>The targets of the redirects in a trace: what the browser is sent.\<close>
  "redirects evs = concat (map (\<lambda>e. case e of Redirect u \<Rightarrow> [u] | _ \<Rightarrow> []) evs)"

definition logs :: "event list \<Rightarrow> event list" where
  \<comment> \<open>The server-side log lines of a trace.\<close>
  "logs evs = filter (\<lambda>e. case e of Log _ _ _ \<Rightarrow> True | ConsoleError _ _ _ \<Rightarrow> True | _ \<Rightarrow> False) evs"

definition provider_calls :: "event list \<Rightarrow> event list" where
  \<comment> \<open>The requests sent to the provider in a trace.\<close>
  "provider_calls evs =
     filter (\<lambda>e. case e of TokenRequest _ _ _ \<Rightarrow> True | FetchRequest _ _ \<Rightarrow> True | _ \<Rightarrow> False) evs"

definition proceeds_past_validation :: "config \<Rightarrow> world \<Rightarrow> request \<Rightarrow> bool" where
  \<comment> \<open>The handler got past the state check: it logged that the state is valid.\<close>
  "proceeds_past_validation cfg w request =
     (Log Info [] ''OAuth state validated successfully.'' \<in> set (callback cfg w request))"

fun browser_cookies_after :: "event list \<Rightarrow> (string \<rightharpoonup> string) \<Rightarrow> (string \<rightharpoonup> string)" where
  \<comment> \<open>The browser's cookie jar once it has received the reply: a cleared cookie is
      dropped. The handler sets no cookie.\<close>
  "browser_cookies_after [] jar = jar"
| "browser_cookies_after (ClearCookie name path # evs) jar =
     browser_cookies_after evs (jar(name := None))"
| "browser_cookies_after (_ # evs) jar = browser_cookies_after evs jar"

section \<open>views/success.html: reading the redirect's query\<close>

text \<open>
  The script of the success page reads its own URL with
  \<^verbatim>\<open>new URLSearchParams(window.location.search)\<close> and \<^verbatim>\<open>params.get(name)\<close>. The parser
  is the \<^verbatim>\<open>application/x-www-form-urlencoded\<close> one: the leading \<^verbatim>\<open>?\<close> is dropped, the
  string is split at \<^verbatim>\<open>&\<close>, each non-empty piece at its first \<^verbatim>\<open>=\<close>, and in name and value
  \<^verbatim>\<open>+\<close> becomes a space and \<^verbatim>\<open>%XY\<close> the byte it denotes.
\<close>

definition is_hex :: "char \<Rightarrow> bool" where
  \<comment> \<open>An ASCII hexadecimal digit, of either case.\<close>
  "is_hex c = (c \<in> set ''0123456789ABCDEFabcdef'')"

definition hex_val :: "char \<Rightarrow> nat" where
  "hex_val c = (let n = (of_char c :: nat) in
     if 48 \<le> n \<and> n \<le> 57 then n - 48
     else if 65 \<le> n \<and> n \<le> 70 then n - 55
     else n - 87)"

fun percent_decode :: "string \<Rightarrow> string" where
  \<comment> \<open>A \<^verbatim>\<open>%\<close> followed by two hexadecimal digits is one byte; any other byte stands for itself.\<close>
  "percent_decode (c # h1 # h2 # cs) =
     (if c = CHR ''%'' \<and> is_hex h1 \<and> is_hex h2
      then char_of (16 * hex_val h1 + hex_val h2) # percent_decode cs
      else c # percent_decode (h1 # h2 # cs))"
| "percent_decode cs = cs"

definition form_urldecode :: "string \<Rightarrow> string" where
  "form_urldecode s = percent_decode (map (\<lambda>c. if c = CHR ''+'' then CHR '' '' else c) s)"

definition split_pair :: "string \<Rightarrow> string \<times> string" where
  "split_pair s =
     (let name = takeWhile (\<lambda>c. c \<noteq> CHR ''='') s;
          rest = dropWhile (\<lambda>c. c \<noteq> CHR ''='') s
      in (form_urldecode name, form_urldecode (drop 1 rest)))"

definition URLSearchParams_parse :: "string \<Rightarrow> (string \<times> string) list" where
  "URLSearchParams_parse search =
     (let s = (case search of c # cs \<Rightarrow> if c = CHR ''?'' then cs else search | [] \<Rightarrow> [])
      in map split_pair (filter (\<lambda>p. p \<noteq> []) (split_on CHR ''&'' s)))"

definition URLSearchParams_get :: "(string \<times> string) list \<Rightarrow> string \<Rightarrow> string option" where
  \<comment> \<open>\<^verbatim>\<open>params.get(name)\<close>: the value of the first pair with that name, \<open>None\<close> for \<^verbatim>\<open>null\<close>.\<close>
  "URLSearchParams_get params name = map_of params name"

definition location_search :: "string \<Rightarrow> string" where
  \<comment> \<open>\<^verbatim>\<open>window.location.search\<close> of a URL: from the first \<^verbatim>\<open>?\<close> up to the fragment.\<close>
  "location_search url =
     takeWhile (\<lambda>c. c \<noteq> CHR ''#'') (dropWhile (\<lambda>c. c \<noteq> CHR ''?'') url)"

definition form_safe :: "char \<Rightarrow> bool" where
  \<comment> \<open>The bytes that the form serializer leaves as they are.\<close>
  "form_safe c = (is_alnum c \<or> c \<in> set ''*-._'')"


definition csrf_rejected :: "config \<Rightarrow> world \<Rightarrow> request \<Rightarrow> bool" where
  \<comment> \<open>The handler stopped at the state check: it did not log a valid state, it sent
      nothing to the provider, and it redirected to the error page with one of the two
      CSRF messages.\<close>
  "csrf_rejected cfg w request =
     (\<not> proceeds_past_validation cfg w request \<and>
      provider_calls (callback cfg w request) = [] \<and>
      redirects (callback cfg w request) \<in> set
        [[error_url cfg ''CSRF validation failed: Invalid state cookie signature.''],
         [error_url cfg ''CSRF validation failed: State parameter mismatch or missing.'']])"

section \<open>Concrete scenarios\<close>

text \<open>
  A configuration, a provider and requests on which the theorems below are exercised.
  The cookie plugin accepts exactly one signed value, \<^verbatim>\<open>abc123.sig\<close>, which unsigns to
  \<^verbatim>\<open>abc123\<close>; the token endpoint accepts exactly the code \<^verbatim>\<open>goodcode\<close>, answers
  the code \<^verbatim>\<open>oddcode\<close> with a payload that has no string access token, and rejects every
  other code.
\<close>

definition demo_config :: config where
  "demo_config =
     \<lparr> nodeEnv = ''production'', port = ''3000'', host = ''0.0.0.0'',
       github = \<lparr> clientId = ''Iv1.0123'', clientSecret = ''shh'',
                  callbackUrl = ''https://auth.example.com/callback'', scope = ''repo'',
                  repo = ''acme/site'' \<rparr>,
       frontendUrl = ''https://cms.example.com'', sessionSecret = ''s3cr3t'',
       rateLimit = \<lparr> requests = ''100'', windowMinutes = ''60'' \<rparr>,
       logLevel = ''info'' \<rparr>"

definition demo_unsign :: "string \<Rightarrow> unsign_result" where
  "demo_unsign s =
     (if s = ''abc123.sig'' then \<lparr> valid = True, renew = False, cookie_value = Some ''abc123'' \<rparr>
      else \<lparr> valid = False, renew = False, cookie_value = None \<rparr>)"

definition demo_profile :: GitHubUserProfile where
  "demo_profile = \<lparr> login = ''octocat'', user_id = 1 \<rparr>"

definition demo_profile_response :: "GitHubUserProfile response" where
  "demo_profile_response = \<lparr> status = 200, body_text = Inr [], body_json = Inr demo_profile \<rparr>"

definition demo_permission :: "string \<Rightarrow> GitHubUserPermission" where
  "demo_permission perm = \<lparr> permission = perm, role_name = perm, user = demo_profile \<rparr>"

definition demo_permission_response :: "nat \<Rightarrow> string \<Rightarrow> GitHubUserPermission response" where
  "demo_permission_response st perm =
     \<lparr> status = st, body_text = Inr ''{}'',
       body_json = (if 200 \<le> st \<and> st \<le> 299 then Inr (demo_permission perm)
                    else Inl (ErrorObj ''Unexpected end of JSON input'')) \<rparr>"

definition demo_world :: "nat \<Rightarrow> string \<Rightarrow> world" where
  \<comment> \<open>The permission endpoint answers with the given status and permission.\<close>
  "demo_world st perm =
     \<lparr> unsignCookie = demo_unsign,
       oauth_getToken = (\<lambda>c r s. if c = ''goodcode'' then Inr (TokenString ''gho_T0ken'')
                                  else if c = ''oddcode'' then Inr TokenNotString
                                  else Inl (ErrorObj ''Response Error: 401 Unauthorized'')),
       fetch_profile = (\<lambda>url hs. Inr demo_profile_response),
       fetch_permission = (\<lambda>url hs. Inr (demo_permission_response st perm)) \<rparr>"

definition demo_request :: "string option \<Rightarrow> string option \<Rightarrow> string option \<Rightarrow> request" where
  \<comment> \<open>A callback request with the given cookie, \<^verbatim>\<open>state\<close> and \<^verbatim>\<open>code\<close>.\<close>
  "demo_request cookie st cd =
     \<lparr> query = \<lparr> code = cd, state = st, error = None, error_description = None \<rparr>,
       cookies = (case cookie of None \<Rightarrow> Map.empty | Some c \<Rightarrow> [''oauth_state'' \<mapsto> c]) \<rparr>"

definition demo_env :: "string \<Rightarrow> (string \<rightharpoonup> string)" where
  \<comment> \<open>An environment that sets every required variable, with the given GITHUB_REPO.\<close>
  "demo_env r = map_of
     [(''NODE_ENV'', ''production''),
      (''GITHUB_CLIENT_ID'', ''Iv1.0123''),
      (''GITHUB_CLIENT_SECRET'', ''shh''),
      (''GITHUB_CALLBACK_URL'', ''https://auth.example.com/callback''),
      (''GITHUB_REPO'', r),
      (''FRONTEND_URL'', ''https://cms.example.com''),
      (''SESSION_SECRET'', ''s3cr3t'')]"

definition demo_config_with_repo :: "string \<Rightarrow> config" where
  "demo_config_with_repo r = demo_config\<lparr>github := (github demo_config)\<lparr>repo := r\<rparr>\<rparr>"

definition demo_ok_request :: request where
  "demo_ok_request = demo_request (Some ''abc123.sig'') (Some ''abc123'') (Some ''goodcode'')"


section \<open>Traces of the components\<close>

lemma redirects_append: "redirects (xs @ ys) = redirects xs @ redirects ys"
  by (simp add: redirects_def)

lemma provider_calls_append: "provider_calls (xs @ ys) = provider_calls xs @ provider_calls ys"
  by (simp add: provider_calls_def)

lemma getToken_cases:
  "(\<exists>t. oauth_getToken w c (callbackUrl (github cfg)) (scope (github cfg)) = Inr (TokenString t)
        \<and> getToken cfg w c = ([TokenRequest c (callbackUrl (github cfg)) (scope (github cfg))], Inr t))
   \<or> ((\<forall>t. oauth_getToken w c (callbackUrl (github cfg)) (scope (github cfg)) \<noteq> Inr (TokenString t))
        \<and> (\<exists>m e. getToken cfg w c =
              ([TokenRequest c (callbackUrl (github cfg)) (scope (github cfg)),
                ConsoleError ''Access Token Error Details:'' m e],
               Inl (ErrorObj (''Failed to obtain access token from GitHub: '' @ m)))))"
  by (auto simp: getToken_def getToken_catch_def Let_def split: sum.splits access_token_field.splits)

lemma getToken_trace:
  "redirects (fst (getToken cfg w c)) = []"
  "provider_calls (fst (getToken cfg w c)) = [TokenRequest c (callbackUrl (github cfg)) (scope (github cfg))]"
  using getToken_cases [of w c cfg]
  by (auto simp: redirects_def provider_calls_def)

lemma getGitHubUser_trace:
  "redirects (fst (getGitHubUser w t)) = []"
  "provider_calls (fst (getGitHubUser w t)) = [FetchRequest ''https://api.github.com/user'' (api_headers t)]"
  by (auto simp: getGitHubUser_def getGitHubUser_catch_def Let_def redirects_def provider_calls_def
           split: sum.splits)

lemma verifyUserPermission_trace:
  "redirects (fst (verifyUserPermission cfg w t u)) = []"
  by (auto simp: verifyUserPermission_def verifyUserPermission_catch_def Let_def redirects_def
           split: sum.splits)

lemma redirects_simps:
  "redirects [] = []"
  "redirects (Redirect u # evs) = u # redirects evs"
  "redirects (Log l fs m # evs) = redirects evs"
  "redirects (ClearCookie n p # evs) = redirects evs"
  "redirects (ConsoleError a b e # evs) = redirects evs"
  "redirects (TokenRequest c r s # evs) = redirects evs"
  "redirects (FetchRequest x hs # evs) = redirects evs"
  by (simp_all add: redirects_def)

lemma callback_catch_redirects:
  "redirects (callback_catch cfg err) =
     [error_url cfg ''An internal error occurred during callback processing.'']"
  by (cases err) (simp_all add: callback_catch_def redirects_simps error_redirect_def)

lemma callback_try_redirects:
  "redirects (callback_try cfg w c) =
     (case snd (getToken cfg w c) of
        Inl err \<Rightarrow> [error_url cfg ''An internal error occurred during callback processing.'']
      | Inr accessToken \<Rightarrow>
          (case snd (getGitHubUser w accessToken) of
             None \<Rightarrow> [error_url cfg ''Failed to fetch user profile from GitHub.'']
           | Some githubUser \<Rightarrow>
               (case snd (verifyUserPermission cfg w accessToken (login githubUser)) of
                  Inl err \<Rightarrow> [error_url cfg ''An internal error occurred during callback processing.'']
                | Inr hasPermission \<Rightarrow>
                    if hasPermission then [success_url cfg accessToken]
                    else [error_url cfg ''Access Denied: You do not have sufficient permissions for the configured repository.''])))"
proof -
  obtain ev1 tok where g: "getToken cfg w c = (ev1, tok)" by (cases "getToken cfg w c")
  have r1: "redirects ev1 = []" using getToken_trace(1) [of cfg w c] g by simp
  show ?thesis
  proof (cases tok)
    case (Inl err)
    then show ?thesis using g r1
      by (simp add: callback_try_def redirects_append redirects_simps callback_catch_redirects)
  next
    case (Inr accessToken)
    obtain ev3 u where p: "getGitHubUser w accessToken = (ev3, u)"
      by (cases "getGitHubUser w accessToken")
    have r3: "redirects ev3 = []" using getGitHubUser_trace(1) [of w accessToken] p by simp
    show ?thesis
    proof (cases u)
      case None
      then show ?thesis using g Inr p r1 r3
        by (simp add: callback_try_def redirects_append redirects_simps error_redirect_def)
    next
      case (Some githubUser)
      obtain ev5 pr where v: "verifyUserPermission cfg w accessToken (login githubUser) = (ev5, pr)"
        by (cases "verifyUserPermission cfg w accessToken (login githubUser)")
      have r5: "redirects ev5 = []"
        using verifyUserPermission_trace [of cfg w accessToken "login githubUser"] v by simp
      show ?thesis using g Inr p Some v r1 r3 r5
        by (cases pr)
           (simp_all add: callback_try_def redirects_append redirects_simps error_redirect_def
              success_redirect_def callback_catch_redirects)
    qed
  qed
qed

lemma callback_state_failure:
  assumes "state_check_fails (unsignCookie w (or_else (cookies request ''oauth_state'') []))
             (state (query request))"
  shows "callback cfg w request =
     [ClearCookie ''oauth_state'' ''/'',
      Log Warn [] ''Invalid OAuth state parameter or cookie mismatch. Potential CSRF attack.'',
      Redirect (error_url cfg (''CSRF validation failed: '' @
         (if \<not> valid (unsignCookie w (or_else (cookies request ''oauth_state'') []))
          then ''Invalid state cookie signature.''
          else ''State parameter mismatch or missing.'')))]"
  using assms by (simp add: callback_def Let_def error_redirect_def)

lemma callback_validated:
  assumes "\<not> state_check_fails (unsignCookie w (or_else (cookies request ''oauth_state'') []))
             (state (query request))"
  shows "callback cfg w request =
     [ClearCookie ''oauth_state'' ''/'', Log Info [] ''OAuth state validated successfully.''] @
     (if truthy (error (query request)) then
        [Log Err [] (''OAuth Error from GitHub: '' @ or_else (error (query request)) [] @
                     '' - '' @ (case error_description (query request) of
                                  None \<Rightarrow> ''undefined'' | Some d \<Rightarrow> d)),
         Redirect (error_url cfg
           (or_else (error_description (query request))
              ''An error occurred during GitHub authentication.''))]
      else if \<not> truthy (code (query request)) then
        [Log Err [] ''No authorization code received from GitHub.'',
         Redirect (error_url cfg ''Authorization code missing from GitHub callback.'')]
      else callback_try cfg w (or_else (code (query request)) []))"
  using assms by (simp add: callback_def Let_def error_redirect_def)

lemma error_url_unfold:
  "error_url cfg m =
     ''/error?error='' @ form_urlencode (encodeURIComponent m) @ ''&origin='' @
     form_urlencode (frontendUrl cfg)"
  by (simp add: error_url_def form_urlencode_def is_alnum_def)

lemma success_url_unfold:
  "success_url cfg t =
     ''/success?token='' @ form_urlencode t @ ''&origin='' @ form_urlencode (frontendUrl cfg)"
  by (simp add: success_url_def form_urlencode_def is_alnum_def)

lemma csrf_sig_encoded:
  "form_urlencode (encodeURIComponent ''CSRF validation failed: Invalid state cookie signature.'')
     = ''CSRF%2520validation%2520failed%253A%2520Invalid%2520state%2520cookie%2520signature.''"
  by code_simp

lemma csrf_mismatch_encoded:
  "form_urlencode (encodeURIComponent ''CSRF validation failed: State parameter mismatch or missing.'')
     = ''CSRF%2520validation%2520failed%253A%2520State%2520parameter%2520mismatch%2520or%2520missing.''"
  by code_simp

lemma logs_simps:
  "logs [] = []"
  "logs (Redirect u # evs) = logs evs"
  "logs (Log l fs m # evs) = Log l fs m # logs evs"
  "logs (ClearCookie n p # evs) = logs evs"
  "logs (ConsoleError a b e # evs) = ConsoleError a b e # logs evs"
  "logs (TokenRequest c r s # evs) = logs evs"
  "logs (FetchRequest x hs # evs) = logs evs"
  by (simp_all add: logs_def)

lemma provider_calls_simps:
  "provider_calls [] = []"
  "provider_calls (Redirect u # evs) = provider_calls evs"
  "provider_calls (Log l fs m # evs) = provider_calls evs"
  "provider_calls (ClearCookie n p # evs) = provider_calls evs"
  "provider_calls (ConsoleError a b e # evs) = provider_calls evs"
  "provider_calls (TokenRequest c r s # evs) = TokenRequest c r s # provider_calls evs"
  "provider_calls (FetchRequest x hs # evs) = FetchRequest x hs # provider_calls evs"
  by (simp_all add: provider_calls_def)

lemma or_else_Some_empty: "or_else (Some c) [] = c"
  by (simp add: or_else_def)

lemma or_else_None: "or_else None d = d"
  by (simp add: or_else_def)

lemma state_failure_rejected:
  assumes "state_check_fails (unsignCookie w (or_else (cookies request ''oauth_state'') []))
             (state (query request))"
  shows "csrf_rejected cfg w request"
  using callback_state_failure [OF assms, of cfg]
  by (simp add: csrf_rejected_def proceeds_past_validation_def provider_calls_simps redirects_simps)

lemma validated_proceeds:
  assumes "\<not> state_check_fails (unsignCookie w (or_else (cookies request ''oauth_state'') []))
             (state (query request))"
  shows "proceeds_past_validation cfg w request"
  using callback_validated [OF assms, of cfg]
  by (simp add: proceeds_past_validation_def)

lemma proceeds_iff:
  "proceeds_past_validation cfg w request \<longleftrightarrow>
     \<not> state_check_fails (unsignCookie w (or_else (cookies request ''oauth_state'') []))
             (state (query request))"
  using state_failure_rejected [of w request cfg] validated_proceeds [of w request cfg]
  by (auto simp: csrf_rejected_def)

lemma browser_cookies_cleared:
  "jar n = None \<Longrightarrow> browser_cookies_after evs jar n = None"
  by (induction evs jar rule: browser_cookies_after.induct) simp_all

lemma callback_try_single_redirect: "\<exists>u. redirects (callback_try cfg w c) = [u]"
  by (simp add: callback_try_redirects split: sum.splits option.splits)

lemma callback_head:
  "\<exists>rest u. callback cfg w request = ClearCookie ''oauth_state'' ''/'' # rest \<and> redirects rest = [u]"
proof (cases "state_check_fails (unsignCookie w (or_else (cookies request ''oauth_state'') []))
               (state (query request))")
  case True
  from callback_state_failure [OF True, of cfg] show ?thesis
    by (simp add: redirects_simps)
next
  case False
  obtain u where u: "redirects (callback_try cfg w (or_else (code (query request)) [])) = [u]"
    using callback_try_single_redirect by blast
  from callback_validated [OF False, of cfg] u show ?thesis
    by (simp add: redirects_simps)
qed


lemma callback_catch_provider_calls: "provider_calls (callback_catch cfg err) = []"
  by (cases err) (simp_all add: callback_catch_def provider_calls_simps error_redirect_def)

lemma callback_try_exchange_failed:
  assumes "snd (getToken cfg w c) = Inl err"
  shows "provider_calls (callback_try cfg w c) =
           [TokenRequest c (callbackUrl (github cfg)) (scope (github cfg))]"
proof -
  obtain ev1 where g: "getToken cfg w c = (ev1, Inl err)"
    using assms by (cases "getToken cfg w c") simp
  have p1: "provider_calls ev1 = [TokenRequest c (callbackUrl (github cfg)) (scope (github cfg))]"
    using getToken_trace(2) [of cfg w c] g by simp
  show ?thesis using g p1
    by (simp add: callback_try_def provider_calls_append provider_calls_simps
          callback_catch_provider_calls)
qed

lemma demo_ok_validates:
  "\<not> state_check_fails (unsignCookie (demo_world st p) (or_else (cookies demo_ok_request ''oauth_state'') []))
       (state (query demo_ok_request))"
  by (simp add: demo_ok_request_def demo_request_def demo_world_def demo_unsign_def
        state_check_fails_def or_else_def truthy_def strict_neq_def)

lemma getConfigValue_default: "\<exists>v. getConfigValue env k (Some d) = Inr v"
  by (simp add: getConfigValue_def Let_def split: option.splits)

lemma getConfigValue_required:
  "env k = Some v \<Longrightarrow> v \<noteq> [] \<Longrightarrow> getConfigValue env k None = Inr v"
  by (simp add: getConfigValue_def Let_def)

lemma load_config_repo:
  assumes "truthy (env ''GITHUB_CLIENT_ID'')" "truthy (env ''GITHUB_CLIENT_SECRET'')"
    "truthy (env ''GITHUB_CALLBACK_URL'')" "truthy (env ''FRONTEND_URL'')"
    "env ''GITHUB_REPO'' = Some r" "r \<noteq> []"
  shows "\<exists>cfg. load_config env = Inr cfg \<and> repo (github cfg) = r"
proof -
  obtain a where a: "env ''GITHUB_CLIENT_ID'' = Some a" "a \<noteq> []"
    using assms(1) by (auto simp: truthy_def split: option.splits)
  obtain b where b: "env ''GITHUB_CLIENT_SECRET'' = Some b" "b \<noteq> []"
    using assms(2) by (auto simp: truthy_def split: option.splits)
  obtain c where c: "env ''GITHUB_CALLBACK_URL'' = Some c" "c \<noteq> []"
    using assms(3) by (auto simp: truthy_def split: option.splits)
  obtain d where d: "env ''FRONTEND_URL'' = Some d" "d \<noteq> []"
    using assms(4) by (auto simp: truthy_def split: option.splits)
  obtain v1 where v1: "getConfigValue env ''NODE_ENV'' (Some ''development'') = Inr v1"
    using getConfigValue_default by blast
  obtain v2 where v2: "getConfigValue env ''PORT'' (Some ''3000'') = Inr v2"
    using getConfigValue_default by blast
  obtain v3 where v3: "getConfigValue env ''HOST'' (Some ''0.0.0.0'') = Inr v3"
    using getConfigValue_default by blast
  obtain v4 where v4: "getConfigValue env ''GITHUB_SCOPE'' (Some ''repo'') = Inr v4"
    using getConfigValue_default by blast
  obtain v5 where v5: "getConfigValue env ''SESSION_SECRET''
      (Some ''a_very_strong_secret_key_that_should_be_changed'') = Inr v5"
    using getConfigValue_default by blast
  obtain v6 where v6: "getConfigValue env ''RATE_LIMIT_REQUESTS'' (Some ''100'') = Inr v6"
    using getConfigValue_default by blast
  obtain v7 where v7: "getConfigValue env ''RATE_LIMIT_WINDOW_MINUTES'' (Some ''60'') = Inr v7"
    using getConfigValue_default by blast
  obtain v8 where v8: "getConfigValue env ''LOG_LEVEL'' (Some ''info'') = Inr v8"
    using getConfigValue_default by blast
  have ga: "getConfigValue env ''GITHUB_CLIENT_ID'' None = Inr a"
    using a by (simp add: getConfigValue_required)
  have gb: "getConfigValue env ''GITHUB_CLIENT_SECRET'' None = Inr b"
    using b by (simp add: getConfigValue_required)
  have gc: "getConfigValue env ''GITHUB_CALLBACK_URL'' None = Inr c"
    using c by (simp add: getConfigValue_required)
  have gd: "getConfigValue env ''FRONTEND_URL'' None = Inr d"
    using d by (simp add: getConfigValue_required)
  have gr: "getConfigValue env ''GITHUB_REPO'' None = Inr r"
    using assms(5,6) by (simp add: getConfigValue_required)
  show ?thesis
    unfolding load_config_def
    by (simp add: v1 v2 v3 v4 v5 v6 v7 v8 ga gb gc gd gr and_then_def)
qed

lemma verifyUserPermission_malformed:
  "\<not> str_includes (repo (github cfg)) CHR ''/'' \<Longrightarrow>
     verifyUserPermission cfg w t u =
       ([], Inl (ErrorObj ''Invalid GITHUB_REPO format. Expected owner/repo.''))"
  by (simp add: verifyUserPermission_def)

lemma demo_load: "load_config (demo_env r) = (if r = [] then Inl (ErrorObj ''Missing environment variable: GITHUB_REPO and no default value provided.'') else Inr (demo_config_with_repo r))"
  by (simp add: load_config_def demo_env_def getConfigValue_def and_then_def Let_def
        demo_config_with_repo_def demo_config_def)









section \<open>The form encoding and its parser\<close>

lemma hex_digit_ok: "n < 16 \<Longrightarrow> is_hex (hex_digit n) \<and> hex_val (hex_digit n) = n \<and> is_alnum (hex_digit n)"
proof -
  have all: "\<forall>n \<in> set [0..<16]. is_hex (hex_digit n) \<and> hex_val (hex_digit n) = n \<and> is_alnum (hex_digit n)"
    by code_simp
  assume "n < 16"
  with all show ?thesis by simp
qed

lemma char_div16: "(of_char c :: nat) div 16 < 16"
proof -
  have "(of_char c :: nat) < 256" by simp
  then show ?thesis by arith
qed

lemma percent_roundtrip:
  "char_of (16 * hex_val (hex_digit (of_char c div 16)) + hex_val (hex_digit (of_char c mod 16))) = c"
proof -
  have d: "(of_char c :: nat) div 16 < 16" by (rule char_div16)
  have m: "(of_char c :: nat) mod 16 < 16" by simp
  have "16 * ((of_char c :: nat) div 16) + of_char c mod 16 = of_char c" by simp
  then show ?thesis using hex_digit_ok [OF d] hex_digit_ok [OF m] by simp
qed

lemma percent_decode_plain:
  "c \<noteq> CHR ''%'' \<Longrightarrow> percent_decode (c # xs) = c # percent_decode xs"
proof (cases xs)
  case Nil
  then show ?thesis by simp
next
  case (Cons h1 t)
  assume "c \<noteq> CHR ''%''"
  with Cons show ?thesis by (cases t) simp_all
qed

lemma percent_decode_escape:
  "is_hex h1 \<Longrightarrow> is_hex h2 \<Longrightarrow>
     percent_decode (CHR ''%'' # h1 # h2 # xs) = char_of (16 * hex_val h1 + hex_val h2) # percent_decode xs"
  by simp

lemma form_safe_not_special:
  "form_safe c \<Longrightarrow> c \<noteq> CHR ''+'' \<and> c \<noteq> CHR ''%'' \<and> c \<noteq> CHR ''&'' \<and> c \<noteq> CHR ''=''
      \<and> c \<noteq> CHR ''#'' \<and> c \<noteq> CHR ''?''"
  by (auto simp: form_safe_def is_alnum_def)

lemma form_urlencode_Cons:
  "form_urlencode (c # s) =
     (if form_safe c then [c] else if c = CHR '' '' then ''+'' else percent_encode c)
     @ form_urlencode s"
  by (simp add: form_urlencode_def form_safe_def)

lemma form_urlencode_Nil: "form_urlencode [] = []"
  by (simp add: form_urlencode_def)

lemma form_urldecode_encode: "form_urldecode (form_urlencode s) = s"
proof (induction s)
  case Nil
  then show ?case by (simp add: form_urlencode_Nil form_urldecode_def)
next
  case (Cons c s)
  let ?plus = "map (\<lambda>c. if c = CHR ''+'' then CHR '' '' else c)"
  have ih: "percent_decode (?plus (form_urlencode s)) = s"
    using Cons.IH by (simp add: form_urldecode_def)
  show ?case
  proof (cases "form_safe c")
    case True
    then show ?thesis using ih form_safe_not_special [OF True]
      by (simp add: form_urlencode_Cons form_urldecode_def percent_decode_plain)
  next
    case False
    show ?thesis
    proof (cases "c = CHR '' ''")
      case True
      then show ?thesis using False ih
        by (simp add: form_urlencode_Cons form_urldecode_def percent_decode_plain)
    next
      case notspace: False
      have d: "(of_char c :: nat) div 16 < 16" by (rule char_div16)
      have m: "(of_char c :: nat) mod 16 < 16" by simp
      have h1: "is_hex (hex_digit (of_char c div 16))" "hex_digit (of_char c div 16) \<noteq> CHR ''+''"
        using hex_digit_ok [OF d] by (auto simp: is_alnum_def)
      have h2: "is_hex (hex_digit (of_char c mod 16))" "hex_digit (of_char c mod 16) \<noteq> CHR ''+''"
        using hex_digit_ok [OF m] by (auto simp: is_alnum_def)
      show ?thesis using False notspace ih h1 h2 percent_roundtrip [of c]
        by (simp add: form_urlencode_Cons form_urldecode_def percent_encode_def Let_def)
    qed
  qed
qed

lemma form_urlencode_chars:
  "x \<in> set (form_urlencode s) \<Longrightarrow> form_safe x \<or> x = CHR ''+'' \<or> x = CHR ''%''"
proof (induction s)
  case Nil
  then show ?case by (simp add: form_urlencode_Nil)
next
  case (Cons c s)
  have d: "(of_char c :: nat) div 16 < 16" by (rule char_div16)
  have m: "(of_char c :: nat) mod 16 < 16" by simp
  from Cons hex_digit_ok [OF d] hex_digit_ok [OF m] show ?case
    by (auto simp: form_urlencode_Cons percent_encode_def Let_def form_safe_def split: if_splits)
qed

lemma form_urlencode_no_separator:
  "CHR ''&'' \<notin> set (form_urlencode s)" "CHR ''='' \<notin> set (form_urlencode s)"
  "CHR ''#'' \<notin> set (form_urlencode s)" "CHR ''?'' \<notin> set (form_urlencode s)"
  using form_urlencode_chars [of _ s] form_safe_not_special by fastforce+

lemma split_on_none: "d \<notin> set a \<Longrightarrow> split_on d a = [a]"
  by (induction a) auto

lemma split_on_first: "d \<notin> set a \<Longrightarrow> split_on d (a @ d # b) = a # split_on d b"
  by (induction a) auto

lemma success_query_roundtrip:
  "URLSearchParams_parse
     (location_search (''/success?token='' @ form_urlencode t @ ''&origin='' @ form_urlencode orig))
   = [(''token'', t), (''origin'', orig)]"
proof -
  define a where "a = ''token='' @ form_urlencode t"
  define b where "b = ''origin='' @ form_urlencode orig"
  have url: "''/success?token='' @ form_urlencode t @ ''&origin='' @ form_urlencode orig
             = ''/success'' @ CHR ''?'' # a @ CHR ''&'' # b"
    by (simp add: a_def b_def)
  have na: "CHR ''&'' \<notin> set a" "CHR ''#'' \<notin> set a" "a \<noteq> []"
    using form_urlencode_no_separator [of t] by (simp_all add: a_def)
  have nb: "CHR ''&'' \<notin> set b" "CHR ''#'' \<notin> set b" "b \<noteq> []"
    using form_urlencode_no_separator [of orig] by (simp_all add: b_def)
  have ls: "location_search (''/success'' @ CHR ''?'' # a @ CHR ''&'' # b)
            = CHR ''?'' # a @ CHR ''&'' # b"
    using na nb by (auto simp: location_search_def takeWhile_eq_all_conv)
  have sp: "split_on CHR ''&'' (a @ CHR ''&'' # b) = [a, b]"
    using split_on_first [OF na(1), of b] split_on_none [OF nb(1)] by simp
  have names: "form_urldecode ''token'' = ''token''" "form_urldecode ''origin'' = ''origin''"
    by code_simp+
  have p1: "split_pair a = (''token'', t)"
    by (simp add: a_def split_pair_def names form_urldecode_encode)
  have p2: "split_pair b = (''origin'', orig)"
    by (simp add: b_def split_pair_def names form_urldecode_encode)
  show ?thesis
    unfolding url ls by (simp add: URLSearchParams_parse_def sp p1 p2 na nb)
qed

section \<open>The state check\<close>

text \<open>
  C3. State validation rejects the callback (the handler does not get past the check, sends
  nothing to the provider and redirects to the error page with a CSRF message) whenever the
  state cookie is absent, its signature does not verify, or the unsigned cookie value
  differs from the \<^verbatim>\<open>state\<close> of the query string; and when the handler does get past
  the check, the cookie is there, its signature verifies and its unsigned value equals the
  query's \<^verbatim>\<open>state\<close>. An absent cookie is unsigned as the empty string, which the cookie
  plugin does not accept as validly signed.
\<close>

theorem state_validation:
  assumes empty_invalid: "\<not> valid (unsignCookie w [])"
  shows "(cookies request ''oauth_state'' = None \<longrightarrow> csrf_rejected cfg w request)
       \<and> (\<forall>c. cookies request ''oauth_state'' = Some c \<and> \<not> valid (unsignCookie w c)
              \<longrightarrow> csrf_rejected cfg w request)
       \<and> (\<forall>c. cookies request ''oauth_state'' = Some c \<and>
                cookie_value (unsignCookie w c) \<noteq> state (query request)
              \<longrightarrow> csrf_rejected cfg w request)
       \<and> (proceeds_past_validation cfg w request \<longrightarrow>
            (\<exists>c q. cookies request ''oauth_state'' = Some c \<and> valid (unsignCookie w c) \<and>
                   cookie_value (unsignCookie w c) = Some q \<and> state (query request) = Some q))"
proof (intro conjI allI impI)
  assume "cookies request ''oauth_state'' = None"
  then have "state_check_fails (unsignCookie w (or_else (cookies request ''oauth_state'') []))
               (state (query request))"
    using empty_invalid by (simp add: state_check_fails_def or_else_None)
  then show "csrf_rejected cfg w request" by (rule state_failure_rejected)
next
  fix c
  assume "cookies request ''oauth_state'' = Some c \<and> \<not> valid (unsignCookie w c)"
  then have "state_check_fails (unsignCookie w (or_else (cookies request ''oauth_state'') []))
               (state (query request))"
    by (simp add: state_check_fails_def or_else_Some_empty)
  then show "csrf_rejected cfg w request" by (rule state_failure_rejected)
next
  fix c
  assume "cookies request ''oauth_state'' = Some c \<and>
          cookie_value (unsignCookie w c) \<noteq> state (query request)"
  then have "state_check_fails (unsignCookie w (or_else (cookies request ''oauth_state'') []))
               (state (query request))"
    by (auto simp: state_check_fails_def or_else_Some_empty strict_neq_def truthy_def
             split: option.splits)
  then show "csrf_rejected cfg w request" by (rule state_failure_rejected)
next
  assume "proceeds_past_validation cfg w request"
  then have ok: "\<not> state_check_fails (unsignCookie w (or_else (cookies request ''oauth_state'') []))
                    (state (query request))"
    by (simp add: proceeds_iff)
  show "\<exists>c q. cookies request ''oauth_state'' = Some c \<and> valid (unsignCookie w c) \<and>
               cookie_value (unsignCookie w c) = Some q \<and> state (query request) = Some q"
  proof (cases "cookies request ''oauth_state''")
    case None
    with ok empty_invalid show ?thesis
      by (simp add: state_check_fails_def or_else_None)
  next
    case (Some c)
    with ok show ?thesis
      by (auto simp: state_check_fails_def or_else_Some_empty strict_neq_def
               split: option.splits)
  qed
qed

theorem state_validation_witness:
  "\<not> valid (unsignCookie (demo_world 200 ''write'') [])
   \<and> cookies (demo_request None (Some ''abc123'') (Some ''goodcode'')) ''oauth_state'' = None
   \<and> csrf_rejected demo_config (demo_world 200 ''write'')
         (demo_request None (Some ''abc123'') (Some ''goodcode''))
   \<and> cookies (demo_request (Some ''abc123.bad'') (Some ''abc123'') (Some ''goodcode''))
         ''oauth_state'' = Some ''abc123.bad''
   \<and> \<not> valid (unsignCookie (demo_world 200 ''write'') ''abc123.bad'')
   \<and> csrf_rejected demo_config (demo_world 200 ''write'')
         (demo_request (Some ''abc123.bad'') (Some ''abc123'') (Some ''goodcode''))
   \<and> cookies (demo_request (Some ''abc123.sig'') (Some ''zzz'') (Some ''goodcode''))
         ''oauth_state'' = Some ''abc123.sig''
   \<and> cookie_value (unsignCookie (demo_world 200 ''write'') ''abc123.sig'')
         \<noteq> state (query (demo_request (Some ''abc123.sig'') (Some ''zzz'') (Some ''goodcode'')))
   \<and> csrf_rejected demo_config (demo_world 200 ''write'')
         (demo_request (Some ''abc123.sig'') (Some ''zzz'') (Some ''goodcode''))
   \<and> proceeds_past_validation demo_config (demo_world 200 ''write'') demo_ok_request
   \<and> (\<exists>c q. cookies demo_ok_request ''oauth_state'' = Some c \<and>
             valid (unsignCookie (demo_world 200 ''write'') c) \<and>
             cookie_value (unsignCookie (demo_world 200 ''write'') c) = Some q \<and>
             state (query demo_ok_request) = Some q)"
proof -
  have e: "\<not> valid (unsignCookie (demo_world 200 ''write'') [])"
    by (simp add: demo_world_def demo_unsign_def)
  have a1: "cookies (demo_request None (Some ''abc123'') (Some ''goodcode'')) ''oauth_state'' = None"
    by (simp add: demo_request_def)
  have b1: "cookies (demo_request (Some ''abc123.bad'') (Some ''abc123'') (Some ''goodcode''))
         ''oauth_state'' = Some ''abc123.bad''"
    by (simp add: demo_request_def)
  have b2: "\<not> valid (unsignCookie (demo_world 200 ''write'') ''abc123.bad'')"
    by (simp add: demo_world_def demo_unsign_def)
  have c1: "cookies (demo_request (Some ''abc123.sig'') (Some ''zzz'') (Some ''goodcode''))
         ''oauth_state'' = Some ''abc123.sig''"
    by (simp add: demo_request_def)
  have c2: "cookie_value (unsignCookie (demo_world 200 ''write'') ''abc123.sig'')
         \<noteq> state (query (demo_request (Some ''abc123.sig'') (Some ''zzz'') (Some ''goodcode'')))"
    by (simp add: demo_request_def demo_world_def demo_unsign_def)
  have d1: "proceeds_past_validation demo_config (demo_world 200 ''write'') demo_ok_request"
    using demo_ok_validates by (rule validated_proceeds)
  note sv = state_validation [OF e, of _ demo_config]
  from sv [of "demo_request None (Some ''abc123'') (Some ''goodcode'')"] a1
  have r1: "csrf_rejected demo_config (demo_world 200 ''write'')
         (demo_request None (Some ''abc123'') (Some ''goodcode''))"
    by blast
  from sv [of "demo_request (Some ''abc123.bad'') (Some ''abc123'') (Some ''goodcode'')"] b1 b2
  have r2: "csrf_rejected demo_config (demo_world 200 ''write'')
         (demo_request (Some ''abc123.bad'') (Some ''abc123'') (Some ''goodcode''))"
    by blast
  from sv [of "demo_request (Some ''abc123.sig'') (Some ''zzz'') (Some ''goodcode'')"] c1 c2
  have r3: "csrf_rejected demo_config (demo_world 200 ''write'')
         (demo_request (Some ''abc123.sig'') (Some ''zzz'') (Some ''goodcode''))"
    by blast
  from sv [of demo_ok_request] d1
  have r4: "\<exists>c q. cookies demo_ok_request ''oauth_state'' = Some c \<and>
             valid (unsignCookie (demo_world 200 ''write'') c) \<and>
             cookie_value (unsignCookie (demo_world 200 ''write'') c) = Some q \<and>
             state (query demo_ok_request) = Some q"
    by blast
  from e a1 r1 b1 b2 r2 c1 c2 r3 d1 r4 show ?thesis by blast
qed

text \<open>
  C10. When the callback arrives without the \<^verbatim>\<open>oauth_state\<close> cookie, the handler unsigns
  the empty string; as that signature does not verify, the redirect goes to the error page
  with the configured origin and the message
  \<^verbatim>\<open>CSRF validation failed: Invalid state cookie signature.\<close> (escaped once by
  \<^verbatim>\<open>encodeURIComponent\<close> and once more by \<^verbatim>\<open>URLSearchParams\<close>), not the message of a
  missing or mismatching state.
\<close>

theorem callback_absent_cookie:
  assumes absent: "cookies request ''oauth_state'' = None"
    and empty_invalid: "\<not> valid (unsignCookie w [])"
  shows "redirects (callback cfg w request) =
           [error_url cfg ''CSRF validation failed: Invalid state cookie signature.'']
       \<and> redirects (callback cfg w request) =
           [''/error?error=CSRF%2520validation%2520failed%253A%2520Invalid%2520state%2520cookie%2520signature.''
            @ ''&origin='' @ form_urlencode (frontendUrl cfg)]"
proof -
  have fails: "state_check_fails (unsignCookie w (or_else (cookies request ''oauth_state'') []))
                 (state (query request))"
    using absent empty_invalid by (simp add: state_check_fails_def or_else_None)
  have "redirects (callback cfg w request) =
           [error_url cfg ''CSRF validation failed: Invalid state cookie signature.'']"
    using callback_state_failure [OF fails, of cfg] absent empty_invalid
    by (simp add: redirects_simps or_else_None)
  then show ?thesis
    by (simp add: error_url_unfold csrf_sig_encoded)
qed

theorem callback_absent_cookie_witness:
  "cookies (demo_request None (Some ''abc123'') (Some ''goodcode'')) ''oauth_state'' = None
   \<and> \<not> valid (unsignCookie (demo_world 200 ''write'') [])
   \<and> redirects (callback demo_config (demo_world 200 ''write'')
                  (demo_request None (Some ''abc123'') (Some ''goodcode''))) =
       [''/error?error=CSRF%2520validation%2520failed%253A%2520Invalid%2520state%2520cookie%2520signature.&origin=https%3A%2F%2Fcms.example.com'']"
proof -
  have a: "cookies (demo_request None (Some ''abc123'') (Some ''goodcode'')) ''oauth_state'' = None"
    by (simp add: demo_request_def)
  have b: "\<not> valid (unsignCookie (demo_world 200 ''write'') [])"
    by (simp add: demo_world_def demo_unsign_def)
  have c: "form_urlencode (frontendUrl demo_config) = ''https%3A%2F%2Fcms.example.com''"
    by code_simp
  from callback_absent_cookie [OF a b, of demo_config, THEN conjunct2] a b c show ?thesis by simp
qed

text \<open>
  C4, as the code has it. Every run of the callback handler clears the \<^verbatim>\<open>oauth_state\<close>
  cookie (path \<^verbatim>\<open>/\<close>) as its first effect, before the single redirect it ends with,
  whatever branch it takes. The state is single-use for a client that drops the cookie
  when told to: its next callback, with any query, is rejected by the state check. The
  handler itself keeps nothing between two runs: whether a request gets past the state
  check depends only on the cookie and the \<^verbatim>\<open>state\<close> it carries, so a request that presents
  the same signed cookie and the same state again is judged as the first one was.
\<close>

theorem callback_clears_state_cookie:
  "(\<exists>rest u. callback cfg w request = ClearCookie ''oauth_state'' ''/'' # rest \<and>
              redirects rest = [u])
   \<and> browser_cookies_after (callback cfg w request) (cookies request) ''oauth_state'' = None
   \<and> (\<not> valid (unsignCookie w []) \<longrightarrow>
        csrf_rejected cfg w
          (next_request\<lparr>cookies := browser_cookies_after (callback cfg w request) (cookies request)\<rparr>))
   \<and> (cookies replay ''oauth_state'' = cookies request ''oauth_state'' \<and>
      state (query replay) = state (query request) \<longrightarrow>
        (proceeds_past_validation cfg w replay \<longleftrightarrow> proceeds_past_validation cfg w request))"
proof (intro conjI impI)
  show "\<exists>rest u. callback cfg w request = ClearCookie ''oauth_state'' ''/'' # rest \<and>
              redirects rest = [u]"
    by (rule callback_head)
  then obtain rest where "callback cfg w request = ClearCookie ''oauth_state'' ''/'' # rest"
    by blast
  then show gone: "browser_cookies_after (callback cfg w request) (cookies request) ''oauth_state'' = None"
    by (simp add: browser_cookies_cleared)
  {
    assume "\<not> valid (unsignCookie w [])"
    with gone have "state_check_fails
        (unsignCookie w (or_else (cookies (next_request\<lparr>cookies :=
            browser_cookies_after (callback cfg w request) (cookies request)\<rparr>) ''oauth_state'') []))
        (state (query (next_request\<lparr>cookies :=
            browser_cookies_after (callback cfg w request) (cookies request)\<rparr>)))"
      by (simp add: state_check_fails_def or_else_None)
    then show "csrf_rejected cfg w
            (next_request\<lparr>cookies := browser_cookies_after (callback cfg w request) (cookies request)\<rparr>)"
      by (rule state_failure_rejected)
  }
  assume "cookies replay ''oauth_state'' = cookies request ''oauth_state'' \<and>
          state (query replay) = state (query request)"
  then show "proceeds_past_validation cfg w replay \<longleftrightarrow> proceeds_past_validation cfg w request"
    by (simp add: proceeds_iff)
qed

theorem callback_clears_state_cookie_witness:
  "\<not> valid (unsignCookie (demo_world 200 ''write'') [])
   \<and> proceeds_past_validation demo_config (demo_world 200 ''write'') demo_ok_request
   \<and> csrf_rejected demo_config (demo_world 200 ''write'')
        (demo_ok_request\<lparr>cookies :=
           browser_cookies_after (callback demo_config (demo_world 200 ''write'') demo_ok_request)
             (cookies demo_ok_request)\<rparr>)
   \<and> cookies (demo_request (Some ''abc123.sig'') (Some ''abc123'') (Some ''badcode'')) ''oauth_state''
       = cookies demo_ok_request ''oauth_state''
   \<and> state (query (demo_request (Some ''abc123.sig'') (Some ''abc123'') (Some ''badcode'')))
       = state (query demo_ok_request)
   \<and> proceeds_past_validation demo_config (demo_world 200 ''write'')
        (demo_request (Some ''abc123.sig'') (Some ''abc123'') (Some ''badcode''))"
proof -
  let ?w = "demo_world 200 ''write''"
  let ?again = "demo_request (Some ''abc123.sig'') (Some ''abc123'') (Some ''badcode'')"
  have e: "\<not> valid (unsignCookie ?w [])"
    by (simp add: demo_world_def demo_unsign_def)
  have d1: "proceeds_past_validation demo_config ?w demo_ok_request"
    using demo_ok_validates by (rule validated_proceeds)
  have same: "cookies ?again ''oauth_state'' = cookies demo_ok_request ''oauth_state''"
    "state (query ?again) = state (query demo_ok_request)"
    by (simp_all add: demo_ok_request_def demo_request_def)
  note c = callback_clears_state_cookie
         [where cfg = demo_config and w = ?w
            and request = demo_ok_request and next_request = demo_ok_request
            and replay = ?again]
  from c e have r: "csrf_rejected demo_config ?w
        (demo_ok_request\<lparr>cookies :=
           browser_cookies_after (callback demo_config ?w demo_ok_request)
             (cookies demo_ok_request)\<rparr>)"
    by blast
  from c same d1 have a: "proceeds_past_validation demo_config ?w ?again"
    by blast
  from e d1 r same a show ?thesis by blast
qed

text \<open>
  C4, as stated, fails in its second half: the first callback clears the cookie and gets
  past the state check, and a second callback that presents the same signed cookie and the
  same state gets past the state check as well. Nothing on the server makes the state
  value unusable after its first validation.
\<close>

theorem state_cookie_replay_accepted:
  "take 1 (callback demo_config (demo_world 200 ''write'') demo_ok_request)
     = [ClearCookie ''oauth_state'' ''/'']
   \<and> proceeds_past_validation demo_config (demo_world 200 ''write'') demo_ok_request
   \<and> cookies demo_ok_request ''oauth_state'' = Some ''abc123.sig''
   \<and> state (query demo_ok_request) = Some ''abc123''
   \<and> cookies (demo_request (Some ''abc123.sig'') (Some ''abc123'') (Some ''badcode'')) ''oauth_state''
       = Some ''abc123.sig''
   \<and> state (query (demo_request (Some ''abc123.sig'') (Some ''abc123'') (Some ''badcode'')))
       = Some ''abc123''
   \<and> proceeds_past_validation demo_config (demo_world 200 ''write'')
        (demo_request (Some ''abc123.sig'') (Some ''abc123'') (Some ''badcode''))"
proof -
  let ?w = "demo_world 200 ''write''"
  let ?again = "demo_request (Some ''abc123.sig'') (Some ''abc123'') (Some ''badcode'')"
  have t: "take 1 (callback demo_config ?w demo_ok_request) = [ClearCookie ''oauth_state'' ''/'']"
    using callback_validated [OF demo_ok_validates, of demo_config 200 "''write''"] by simp
  have p1: "proceeds_past_validation demo_config ?w demo_ok_request"
    using demo_ok_validates by (rule validated_proceeds)
  have c1: "cookies demo_ok_request ''oauth_state'' = Some ''abc123.sig''"
    "state (query demo_ok_request) = Some ''abc123''"
    by (simp_all add: demo_ok_request_def demo_request_def)
  have c2: "cookies ?again ''oauth_state'' = Some ''abc123.sig''"
    "state (query ?again) = Some ''abc123''"
    by (simp_all add: demo_request_def)
  have p2: "proceeds_past_validation demo_config ?w ?again"
    by (rule validated_proceeds)
       (simp add: demo_request_def demo_world_def demo_unsign_def
          state_check_fails_def or_else_def truthy_def strict_neq_def)
  from t p1 c1 c2 p2 show ?thesis by simp
qed

text \<open>
  C2, as the code has it. A callback that fails the state check is redirected to the error
  page with the configured origin, and the \<^verbatim>\<open>error\<close> parameter of that redirect names the
  cause: \<^verbatim>\<open>Invalid state cookie signature.\<close> when the signature does not verify,
  \<^verbatim>\<open>State parameter mismatch or missing.\<close> otherwise. The server-side log line is the
  same generic warning for both causes.
\<close>

theorem csrf_failure_response:
  assumes fails: "state_check_fails (unsignCookie w (or_else (cookies request ''oauth_state'') []))
             (state (query request))"
  shows "redirects (callback cfg w request) =
           [''/error?error='' @
            (if \<not> valid (unsignCookie w (or_else (cookies request ''oauth_state'') []))
             then ''CSRF%2520validation%2520failed%253A%2520Invalid%2520state%2520cookie%2520signature.''
             else ''CSRF%2520validation%2520failed%253A%2520State%2520parameter%2520mismatch%2520or%2520missing.'')
            @ ''&origin='' @ form_urlencode (frontendUrl cfg)]
       \<and> logs (callback cfg w request) =
           [Log Warn [] ''Invalid OAuth state parameter or cookie mismatch. Potential CSRF attack.'']"
  using callback_state_failure [OF fails, of cfg]
  by (simp add: redirects_simps logs_simps error_url_unfold csrf_sig_encoded csrf_mismatch_encoded)

theorem csrf_failure_response_witness:
  "state_check_fails
     (unsignCookie (demo_world 200 ''write'')
        (or_else (cookies (demo_request (Some ''abc123.sig'') (Some ''zzz'') (Some ''goodcode''))
                    ''oauth_state'') []))
     (state (query (demo_request (Some ''abc123.sig'') (Some ''zzz'') (Some ''goodcode''))))
   \<and> redirects (callback demo_config (demo_world 200 ''write'')
                  (demo_request (Some ''abc123.sig'') (Some ''zzz'') (Some ''goodcode''))) =
       [''/error?error=CSRF%2520validation%2520failed%253A%2520State%2520parameter%2520mismatch%2520or%2520missing.&origin=https%3A%2F%2Fcms.example.com'']"
proof -
  have f: "state_check_fails
     (unsignCookie (demo_world 200 ''write'')
        (or_else (cookies (demo_request (Some ''abc123.sig'') (Some ''zzz'') (Some ''goodcode''))
                    ''oauth_state'') []))
     (state (query (demo_request (Some ''abc123.sig'') (Some ''zzz'') (Some ''goodcode''))))"
    by (simp add: demo_request_def demo_world_def demo_unsign_def state_check_fails_def
          or_else_def truthy_def strict_neq_def)
  have v: "valid (unsignCookie (demo_world 200 ''write'')
        (or_else (cookies (demo_request (Some ''abc123.sig'') (Some ''zzz'') (Some ''goodcode''))
                    ''oauth_state'') []))"
    by (simp add: demo_request_def demo_world_def demo_unsign_def or_else_def)
  have o: "form_urlencode (frontendUrl demo_config) = ''https%3A%2F%2Fcms.example.com''"
    by code_simp
  from csrf_failure_response [OF f, of demo_config, THEN conjunct1] f v o show ?thesis by simp
qed

text \<open>
  C2, as stated, fails: a request whose cookie signature does not verify and a request whose
  state does not match get different redirects, while their log lines are equal.
\<close>

theorem csrf_cause_visible_to_client:
  "\<not> valid (unsignCookie (demo_world 200 ''write'') ''abc123.bad'')
   \<and> valid (unsignCookie (demo_world 200 ''write'') ''abc123.sig'')
   \<and> csrf_rejected demo_config (demo_world 200 ''write'')
        (demo_request (Some ''abc123.bad'') (Some ''abc123'') (Some ''goodcode''))
   \<and> csrf_rejected demo_config (demo_world 200 ''write'')
        (demo_request (Some ''abc123.sig'') (Some ''zzz'') (Some ''goodcode''))
   \<and> redirects (callback demo_config (demo_world 200 ''write'')
        (demo_request (Some ''abc123.bad'') (Some ''abc123'') (Some ''goodcode'')))
     \<noteq> redirects (callback demo_config (demo_world 200 ''write'')
        (demo_request (Some ''abc123.sig'') (Some ''zzz'') (Some ''goodcode'')))
   \<and> logs (callback demo_config (demo_world 200 ''write'')
        (demo_request (Some ''abc123.bad'') (Some ''abc123'') (Some ''goodcode'')))
     = logs (callback demo_config (demo_world 200 ''write'')
        (demo_request (Some ''abc123.sig'') (Some ''zzz'') (Some ''goodcode'')))"
proof -
  let ?w = "demo_world 200 ''write''"
  let ?bad = "demo_request (Some ''abc123.bad'') (Some ''abc123'') (Some ''goodcode'')"
  let ?mis = "demo_request (Some ''abc123.sig'') (Some ''zzz'') (Some ''goodcode'')"
  have vb: "\<not> valid (unsignCookie ?w ''abc123.bad'')"
    by (simp add: demo_world_def demo_unsign_def)
  have vs: "valid (unsignCookie ?w ''abc123.sig'')"
    by (simp add: demo_world_def demo_unsign_def)
  have cb: "or_else (cookies ?bad ''oauth_state'') [] = ''abc123.bad''"
    by (simp add: demo_request_def or_else_def)
  have cm: "or_else (cookies ?mis ''oauth_state'') [] = ''abc123.sig''"
    by (simp add: demo_request_def or_else_def)
  have fb: "state_check_fails (unsignCookie ?w (or_else (cookies ?bad ''oauth_state'') []))
              (state (query ?bad))"
    using vb by (simp add: cb state_check_fails_def)
  have fm: "state_check_fails (unsignCookie ?w (or_else (cookies ?mis ''oauth_state'') []))
              (state (query ?mis))"
    by (simp add: cm state_check_fails_def strict_neq_def demo_request_def demo_world_def
          demo_unsign_def)
  have tb: "callback demo_config ?w ?bad =
     [ClearCookie ''oauth_state'' ''/'',
      Log Warn [] ''Invalid OAuth state parameter or cookie mismatch. Potential CSRF attack.'',
      Redirect (error_url demo_config ''CSRF validation failed: Invalid state cookie signature.'')]"
    using callback_state_failure [OF fb, of demo_config] vb by (simp add: cb)
  have tm: "callback demo_config ?w ?mis =
     [ClearCookie ''oauth_state'' ''/'',
      Log Warn [] ''Invalid OAuth state parameter or cookie mismatch. Potential CSRF attack.'',
      Redirect (error_url demo_config ''CSRF validation failed: State parameter mismatch or missing.'')]"
    using callback_state_failure [OF fm, of demo_config] vs by (simp add: cm)
  have ne: "error_url demo_config ''CSRF validation failed: Invalid state cookie signature.''
          \<noteq> error_url demo_config ''CSRF validation failed: State parameter mismatch or missing.''"
    by (simp add: error_url_unfold csrf_sig_encoded csrf_mismatch_encoded)
  have rb: "csrf_rejected demo_config ?w ?bad" using fb by (rule state_failure_rejected)
  have rm: "csrf_rejected demo_config ?w ?mis" using fm by (rule state_failure_rejected)
  from vb vs rb rm ne show ?thesis
    by (simp add: tb tm redirects_simps logs_simps)
qed

section \<open>The flow after validation\<close>



text \<open>
  C5. A callback whose state cookie verifies and unsigns to the (non-empty) \<^verbatim>\<open>state\<close> of the
  query, with no provider \<^verbatim>\<open>error\<close> and with a \<^verbatim>\<open>code\<close>, for which the token exchange
  returns the token \<open>T\<close>, the profile fetch returns an identity and the permission check
  returns true, is answered by a redirect to \<^verbatim>\<open>/success\<close> whose query string carries
  \<^verbatim>\<open>token\<close> = \<open>T\<close> and \<^verbatim>\<open>origin\<close> = the configured client-facing origin: both are
  written in the form encoding of \<^verbatim>\<open>URLSearchParams\<close>, and the success page, parsing its
  URL, reads back exactly \<open>T\<close> and the origin.
\<close>

theorem callback_success:
  assumes cookie: "cookies request ''oauth_state'' = Some ck"
    and sig: "valid (unsignCookie w ck)"
    and unsigned: "cookie_value (unsignCookie w ck) = Some q"
    and st: "state (query request) = Some q" and nonempty: "q \<noteq> []"
    and no_error: "\<not> truthy (error (query request))"
    and cd: "code (query request) = Some c" "c \<noteq> []"
    and exchange: "snd (getToken cfg w c) = Inr T"
    and profile: "snd (getGitHubUser w T) = Some identity"
    and sufficient: "snd (verifyUserPermission cfg w T (login identity)) = Inr True"
  shows "redirects (callback cfg w request) = [success_url cfg T]
       \<and> success_url cfg T =
           ''/success?token='' @ form_urlencode T @ ''&origin='' @ form_urlencode (frontendUrl cfg)
       \<and> URLSearchParams_get (URLSearchParams_parse (location_search (success_url cfg T)))
           ''token'' = Some T
       \<and> URLSearchParams_get (URLSearchParams_parse (location_search (success_url cfg T)))
           ''origin'' = Some (frontendUrl cfg)"
proof -
  have ok: "\<not> state_check_fails (unsignCookie w (or_else (cookies request ''oauth_state'') []))
                (state (query request))"
    using cookie sig unsigned st nonempty
    by (simp add: state_check_fails_def or_else_Some_empty truthy_def strict_neq_def)
  have "redirects (callback_try cfg w c) = [success_url cfg T]"
    using exchange profile sufficient by (simp add: callback_try_redirects)
  with callback_validated [OF ok, of cfg] no_error cd
  have r: "redirects (callback cfg w request) = [success_url cfg T]"
    by (simp add: redirects_simps truthy_def or_else_Some_empty)
  have p: "URLSearchParams_parse (location_search (success_url cfg T))
             = [(''token'', T), (''origin'', frontendUrl cfg)]"
    by (simp only: success_url_unfold success_query_roundtrip)
  from r p show ?thesis
    by (simp add: success_url_unfold URLSearchParams_get_def)
qed

theorem callback_success_witness:
  "cookies demo_ok_request ''oauth_state'' = Some ''abc123.sig''
   \<and> valid (unsignCookie (demo_world 200 ''write'') ''abc123.sig'')
   \<and> cookie_value (unsignCookie (demo_world 200 ''write'') ''abc123.sig'') = Some ''abc123''
   \<and> state (query demo_ok_request) = Some ''abc123''
   \<and> \<not> truthy (error (query demo_ok_request))
   \<and> code (query demo_ok_request) = Some ''goodcode''
   \<and> snd (getToken demo_config (demo_world 200 ''write'') ''goodcode'') = Inr ''gho_T0ken''
   \<and> snd (getGitHubUser (demo_world 200 ''write'') ''gho_T0ken'') = Some demo_profile
   \<and> snd (verifyUserPermission demo_config (demo_world 200 ''write'') ''gho_T0ken''
            (login demo_profile)) = Inr True
   \<and> redirects (callback demo_config (demo_world 200 ''write'') demo_ok_request) =
       [''/success?token=gho_T0ken&origin=https%3A%2F%2Fcms.example.com'']
   \<and> URLSearchParams_get (URLSearchParams_parse (location_search
         ''/success?token=gho_T0ken&origin=https%3A%2F%2Fcms.example.com'')) ''token''
       = Some ''gho_T0ken''
   \<and> URLSearchParams_get (URLSearchParams_parse (location_search
         ''/success?token=gho_T0ken&origin=https%3A%2F%2Fcms.example.com'')) ''origin''
       = Some ''https://cms.example.com''"
proof -
  let ?w = "demo_world 200 ''write''"
  have h1: "cookies demo_ok_request ''oauth_state'' = Some ''abc123.sig''"
    by (simp add: demo_ok_request_def demo_request_def)
  have h2: "valid (unsignCookie ?w ''abc123.sig'')"
    by (simp add: demo_world_def demo_unsign_def)
  have h3: "cookie_value (unsignCookie ?w ''abc123.sig'') = Some ''abc123''"
    by (simp add: demo_world_def demo_unsign_def)
  have h4: "state (query demo_ok_request) = Some ''abc123''"
    by (simp add: demo_ok_request_def demo_request_def)
  have h5: "''abc123'' \<noteq> []" by simp
  have h6: "\<not> truthy (error (query demo_ok_request))"
    by (simp add: demo_ok_request_def demo_request_def truthy_def)
  have h7: "code (query demo_ok_request) = Some ''goodcode''"
    by (simp add: demo_ok_request_def demo_request_def)
  have h8: "''goodcode'' \<noteq> []" by simp
  have h9: "snd (getToken demo_config ?w ''goodcode'') = Inr ''gho_T0ken''"
    by (simp add: getToken_def Let_def demo_world_def)
  have h10: "snd (getGitHubUser ?w ''gho_T0ken'') = Some demo_profile"
    by (simp add: getGitHubUser_def Let_def demo_world_def demo_profile_response_def ok_def)
  have h11: "snd (verifyUserPermission demo_config ?w ''gho_T0ken'' (login demo_profile)) = Inr True"
    by (simp add: verifyUserPermission_def ok_def Let_def demo_config_def demo_world_def
          demo_permission_response_def demo_permission_def str_includes_def)
  have url: "success_url demo_config ''gho_T0ken''
               = ''/success?token=gho_T0ken&origin=https%3A%2F%2Fcms.example.com''"
    by code_simp
  have org: "frontendUrl demo_config = ''https://cms.example.com''"
    by (simp add: demo_config_def)
  note cs = callback_success [OF h1 h2 h3 h4 h5 h6 h7 h8 h9 h10 h11]
  from cs url have r: "redirects (callback demo_config ?w demo_ok_request) =
       [''/success?token=gho_T0ken&origin=https%3A%2F%2Fcms.example.com'']"
    by simp
  from cs have "URLSearchParams_get (URLSearchParams_parse (location_search
                  (success_url demo_config ''gho_T0ken''))) ''token'' = Some ''gho_T0ken''
              \<and> URLSearchParams_get (URLSearchParams_parse (location_search
                  (success_url demo_config ''gho_T0ken''))) ''origin'' = Some (frontendUrl demo_config)"
    by blast
  then have g: "URLSearchParams_get (URLSearchParams_parse (location_search
         ''/success?token=gho_T0ken&origin=https%3A%2F%2Fcms.example.com'')) ''token''
       = Some ''gho_T0ken''
     \<and> URLSearchParams_get (URLSearchParams_parse (location_search
         ''/success?token=gho_T0ken&origin=https%3A%2F%2Fcms.example.com'')) ''origin''
       = Some ''https://cms.example.com''"
    by (simp only: url org)
  from h1 h2 h3 h4 h6 h7 h9 h10 h11 r g show ?thesis by blast
qed

text \<open>
  C7. When the OAuth client's token request is rejected (which is how a non-success answer
  of the token endpoint and a failed network call reach \<^verbatim>\<open>getToken\<close>) or resolves to a
  payload whose access token is not a string, \<^verbatim>\<open>getToken\<close> throws an Error
  \<^verbatim>\<open>Failed to obtain access token from GitHub: ...\<close>; the handler catches it and redirects
  to the error page with the generic internal-error message; and the only request sent to
  the provider in that run is the one token request, so nothing is retried.
\<close>

theorem token_exchange_failure:
  assumes validated: "proceeds_past_validation cfg w request"
    and no_error: "\<not> truthy (error (query request))"
    and cd: "code (query request) = Some c" "c \<noteq> []"
    and failed: "(\<exists>e. oauth_getToken w c (callbackUrl (github cfg)) (scope (github cfg)) = Inl e)
               \<or> oauth_getToken w c (callbackUrl (github cfg)) (scope (github cfg)) = Inr TokenNotString"
  shows "(\<exists>m. snd (getToken cfg w c) =
               Inl (ErrorObj (''Failed to obtain access token from GitHub: '' @ m)))
       \<and> redirects (callback cfg w request) =
           [error_url cfg ''An internal error occurred during callback processing.'']
       \<and> provider_calls (callback cfg w request) =
           [TokenRequest c (callbackUrl (github cfg)) (scope (github cfg))]"
proof -
  have ok: "\<not> state_check_fails (unsignCookie w (or_else (cookies request ''oauth_state'') []))
                (state (query request))"
    using validated by (simp add: proceeds_iff)
  from failed getToken_cases [of w c cfg]
  obtain m where m: "snd (getToken cfg w c) =
               Inl (ErrorObj (''Failed to obtain access token from GitHub: '' @ m))"
    by auto
  have r: "redirects (callback_try cfg w c) =
           [error_url cfg ''An internal error occurred during callback processing.'']"
    using m by (simp add: callback_try_redirects)
  have p: "provider_calls (callback_try cfg w c) =
           [TokenRequest c (callbackUrl (github cfg)) (scope (github cfg))]"
    using m by (rule callback_try_exchange_failed)
  from callback_validated [OF ok, of cfg] no_error cd r p m show ?thesis
    by (simp add: redirects_simps provider_calls_simps truthy_def or_else_Some_empty)
qed

theorem token_exchange_failure_witness:
  "proceeds_past_validation demo_config (demo_world 200 ''write'')
     (demo_request (Some ''abc123.sig'') (Some ''abc123'') (Some ''badcode''))
   \<and> \<not> truthy (error (query (demo_request (Some ''abc123.sig'') (Some ''abc123'') (Some ''badcode''))))
   \<and> code (query (demo_request (Some ''abc123.sig'') (Some ''abc123'') (Some ''badcode'')))
       = Some ''badcode''
   \<and> oauth_getToken (demo_world 200 ''write'') ''badcode'' (callbackUrl (github demo_config))
        (scope (github demo_config)) = Inl (ErrorObj ''Response Error: 401 Unauthorized'')
   \<and> redirects (callback demo_config (demo_world 200 ''write'')
        (demo_request (Some ''abc123.sig'') (Some ''abc123'') (Some ''badcode''))) =
       [''/error?error=An%2520internal%2520error%2520occurred%2520during%2520callback%2520processing.&origin=https%3A%2F%2Fcms.example.com'']
   \<and> provider_calls (callback demo_config (demo_world 200 ''write'')
        (demo_request (Some ''abc123.sig'') (Some ''abc123'') (Some ''badcode''))) =
       [TokenRequest ''badcode'' ''https://auth.example.com/callback'' ''repo'']
   \<and> oauth_getToken (demo_world 200 ''write'') ''oddcode'' (callbackUrl (github demo_config))
        (scope (github demo_config)) = Inr TokenNotString
   \<and> redirects (callback demo_config (demo_world 200 ''write'')
        (demo_request (Some ''abc123.sig'') (Some ''abc123'') (Some ''oddcode''))) =
       [''/error?error=An%2520internal%2520error%2520occurred%2520during%2520callback%2520processing.&origin=https%3A%2F%2Fcms.example.com'']
   \<and> provider_calls (callback demo_config (demo_world 200 ''write'')
        (demo_request (Some ''abc123.sig'') (Some ''abc123'') (Some ''oddcode''))) =
       [TokenRequest ''oddcode'' ''https://auth.example.com/callback'' ''repo'']"
proof -
  let ?w = "demo_world 200 ''write''"
  let ?r = "demo_request (Some ''abc123.sig'') (Some ''abc123'') (Some ''badcode'')"
  let ?r' = "demo_request (Some ''abc123.sig'') (Some ''abc123'') (Some ''oddcode'')"
  have p: "proceeds_past_validation demo_config ?w ?r"
    by (rule validated_proceeds)
       (simp add: demo_request_def demo_world_def demo_unsign_def
          state_check_fails_def or_else_def truthy_def strict_neq_def)
  have p': "proceeds_past_validation demo_config ?w ?r'"
    by (rule validated_proceeds)
       (simp add: demo_request_def demo_world_def demo_unsign_def
          state_check_fails_def or_else_def truthy_def strict_neq_def)
  have e: "\<not> truthy (error (query ?r))" by (simp add: demo_request_def truthy_def)
  have e': "\<not> truthy (error (query ?r'))" by (simp add: demo_request_def truthy_def)
  have c: "code (query ?r) = Some ''badcode''" by (simp add: demo_request_def)
  have c': "code (query ?r') = Some ''oddcode''" by (simp add: demo_request_def)
  have n: "''badcode'' \<noteq> []" by simp
  have n': "''oddcode'' \<noteq> []" by simp
  have g: "oauth_getToken ?w ''badcode'' (callbackUrl (github demo_config))
        (scope (github demo_config)) = Inl (ErrorObj ''Response Error: 401 Unauthorized'')"
    by (simp add: demo_world_def)
  then have f: "(\<exists>e. oauth_getToken ?w ''badcode'' (callbackUrl (github demo_config))
        (scope (github demo_config)) = Inl e)
     \<or> oauth_getToken ?w ''badcode'' (callbackUrl (github demo_config))
        (scope (github demo_config)) = Inr TokenNotString"
    by blast
  have g': "oauth_getToken ?w ''oddcode'' (callbackUrl (github demo_config))
        (scope (github demo_config)) = Inr TokenNotString"
    by (simp add: demo_world_def)
  then have f': "(\<exists>e. oauth_getToken ?w ''oddcode'' (callbackUrl (github demo_config))
        (scope (github demo_config)) = Inl e)
     \<or> oauth_getToken ?w ''oddcode'' (callbackUrl (github demo_config))
        (scope (github demo_config)) = Inr TokenNotString"
    by blast
  have u: "error_url demo_config ''An internal error occurred during callback processing.''
     = ''/error?error=An%2520internal%2520error%2520occurred%2520during%2520callback%2520processing.&origin=https%3A%2F%2Fcms.example.com''"
    by code_simp
  have k: "callbackUrl (github demo_config) = ''https://auth.example.com/callback''"
    "scope (github demo_config) = ''repo''"
    by (simp_all add: demo_config_def)
  from token_exchange_failure [OF p e c n f] u k
  have a: "redirects (callback demo_config ?w ?r) =
       [''/error?error=An%2520internal%2520error%2520occurred%2520during%2520callback%2520processing.&origin=https%3A%2F%2Fcms.example.com'']
     \<and> provider_calls (callback demo_config ?w ?r) =
       [TokenRequest ''badcode'' ''https://auth.example.com/callback'' ''repo'']"
    by simp
  from token_exchange_failure [OF p' e' c' n' f'] u k
  have b: "redirects (callback demo_config ?w ?r') =
       [''/error?error=An%2520internal%2520error%2520occurred%2520during%2520callback%2520processing.&origin=https%3A%2F%2Fcms.example.com'']
     \<and> provider_calls (callback demo_config ?w ?r') =
       [TokenRequest ''oddcode'' ''https://auth.example.com/callback'' ''repo'']"
    by simp
  from p e c g a g' b show ?thesis by blast
qed

section \<open>The permission verifier\<close>

text \<open>
  C6. With a well-formed resource identifier, a 2xx answer of the permission endpoint whose
  body parses is classified as sufficient exactly when its permission field is
  \<^verbatim>\<open>admin\<close>, \<^verbatim>\<open>write\<close> or \<^verbatim>\<open>maintain\<close>; every other string, \<^verbatim>\<open>read\<close> and
  \<^verbatim>\<open>none\<close> among them, gives false. A 404 answer gives false as a returned value, not
  as a thrown error.
\<close>

theorem verifyUserPermission_classification:
  assumes fmt: "str_includes (repo (github cfg)) CHR ''/''"
    and resp: "fetch_permission w (permission_url cfg username) (api_headers accessToken)
                 = Inr response"
  shows "(ok response \<and> body_json response = Inr data \<longrightarrow>
            snd (verifyUserPermission cfg w accessToken username) =
              Inr (permission data = ''admin'' \<or> permission data = ''write'' \<or>
                   permission data = ''maintain''))
       \<and> (status response = 404 \<longrightarrow>
            snd (verifyUserPermission cfg w accessToken username) = Inr False)"
  using fmt resp
  by (auto simp: verifyUserPermission_def verifyUserPermission_catch_def ok_def Let_def
           split: sum.splits)

theorem verifyUserPermission_classification_witness:
  "str_includes (repo (github demo_config)) CHR ''/''
   \<and> fetch_permission (demo_world 200 ''write'') (permission_url demo_config ''octocat'')
         (api_headers ''gho_T0ken'') = Inr (demo_permission_response 200 ''write'')
   \<and> ok (demo_permission_response 200 ''write'')
   \<and> body_json (demo_permission_response 200 ''write'') = Inr (demo_permission ''write'')
   \<and> snd (verifyUserPermission demo_config (demo_world 200 ''write'') ''gho_T0ken'' ''octocat'')
         = Inr True
   \<and> fetch_permission (demo_world 404 []) (permission_url demo_config ''octocat'')
         (api_headers ''gho_T0ken'') = Inr (demo_permission_response 404 [])
   \<and> status (demo_permission_response 404 []) = 404
   \<and> snd (verifyUserPermission demo_config (demo_world 404 []) ''gho_T0ken'' ''octocat'')
         = Inr False"
proof -
  have fmt: "str_includes (repo (github demo_config)) CHR ''/''"
    by (simp add: str_includes_def demo_config_def)
  have r200: "fetch_permission (demo_world 200 ''write'') (permission_url demo_config ''octocat'')
         (api_headers ''gho_T0ken'') = Inr (demo_permission_response 200 ''write'')"
    by (simp add: demo_world_def)
  have r404: "fetch_permission (demo_world 404 []) (permission_url demo_config ''octocat'')
         (api_headers ''gho_T0ken'') = Inr (demo_permission_response 404 [])"
    by (simp add: demo_world_def)
  have ok200: "ok (demo_permission_response 200 ''write'')"
    by (simp add: ok_def demo_permission_response_def)
  have js200: "body_json (demo_permission_response 200 ''write'') = Inr (demo_permission ''write'')"
    by (simp add: demo_permission_response_def)
  have st404: "status (demo_permission_response 404 []) = 404"
    by (simp add: demo_permission_response_def)
  from verifyUserPermission_classification [OF fmt r200, of "demo_permission ''write''"] ok200 js200
  have a: "snd (verifyUserPermission demo_config (demo_world 200 ''write'') ''gho_T0ken'' ''octocat'')
         = Inr True"
    by (simp add: demo_permission_def)
  from verifyUserPermission_classification [OF fmt r404] st404
  have b: "snd (verifyUserPermission demo_config (demo_world 404 []) ''gho_T0ken'' ''octocat'')
         = Inr False"
    by simp
  from fmt r200 r404 ok200 js200 st404 a b show ?thesis by simp
qed

text \<open>
  C1, at a failing input. The permission endpoint answers 500. \<^verbatim>\<open>verifyUserPermission\<close>
  throws its \<^verbatim>\<open>Failed to verify user permission\<close> error inside its own \<^verbatim>\<open>try\<close>, whose
  \<^verbatim>\<open>catch\<close> turns it into the return value false; the handler then reports insufficient
  permissions.
\<close>

theorem permission_hard_error_swallowed:
  "\<not> ok (demo_permission_response 500 []) \<and> status (demo_permission_response 500 []) \<noteq> 404
   \<and> snd (verifyUserPermission demo_config (demo_world 500 []) ''gho_T0ken'' ''octocat'') = Inr False
   \<and> redirects (callback demo_config (demo_world 500 []) demo_ok_request) =
       [error_url demo_config
          ''Access Denied: You do not have sufficient permissions for the configured repository.'']"
proof -
  have a: "\<not> ok (demo_permission_response 500 []) \<and> status (demo_permission_response 500 []) \<noteq> 404"
    by (simp add: ok_def demo_permission_response_def)
  have v: "snd (verifyUserPermission demo_config (demo_world 500 []) ''gho_T0ken'' ''octocat'') = Inr False"
    by (simp add: verifyUserPermission_def verifyUserPermission_catch_def ok_def Let_def
          demo_config_def demo_world_def demo_permission_response_def str_includes_def)
  have t: "snd (getToken demo_config (demo_world 500 []) ''goodcode'') = Inr ''gho_T0ken''"
    by (simp add: getToken_def Let_def demo_world_def)
  have u: "snd (getGitHubUser (demo_world 500 []) ''gho_T0ken'') = Some demo_profile"
    by (simp add: getGitHubUser_def Let_def demo_world_def demo_profile_response_def ok_def)
  have l: "login demo_profile = ''octocat''" by (simp add: demo_profile_def)
  have r: "redirects (callback_try demo_config (demo_world 500 []) ''goodcode'') =
       [error_url demo_config
          ''Access Denied: You do not have sufficient permissions for the configured repository.'']"
    using t u v l by (simp add: callback_try_redirects)
  have c: "code (query demo_ok_request) = Some ''goodcode''" "error (query demo_ok_request) = None"
    by (simp_all add: demo_ok_request_def demo_request_def)
  from callback_validated [OF demo_ok_validates, of demo_config 500 "[]"] r c a v show ?thesis
    by (simp add: redirects_simps truthy_def or_else_def)
qed

section \<open>The resource identifier\<close>

text \<open>
  C8, as the code has it. Loading the configuration only requires \<^verbatim>\<open>GITHUB_REPO\<close> to be
  set and not empty, so an identifier without \<^verbatim>\<open>/\<close> is accepted when the process starts.
  The format is checked on each request: \<^verbatim>\<open>verifyUserPermission\<close> throws
  \<^verbatim>\<open>Invalid GITHUB_REPO format\<close> before it contacts the provider, and a flow that has
  reached the permission check ends in a redirect to the error page with the generic
  internal-error message.
\<close>

theorem malformed_repo_is_per_request:
  "(truthy (env ''GITHUB_CLIENT_ID'') \<and> truthy (env ''GITHUB_CLIENT_SECRET'') \<and>
    truthy (env ''GITHUB_CALLBACK_URL'') \<and> truthy (env ''FRONTEND_URL'') \<and>
    env ''GITHUB_REPO'' = Some r \<and> r \<noteq> []
      \<longrightarrow> (\<exists>loaded. load_config env = Inr loaded \<and> repo (github loaded) = r))
   \<and> (\<not> str_includes (repo (github cfg)) CHR ''/''
      \<longrightarrow> verifyUserPermission cfg w T username =
            ([], Inl (ErrorObj ''Invalid GITHUB_REPO format. Expected owner/repo.'')))
   \<and> (\<not> str_includes (repo (github cfg)) CHR ''/'' \<and>
      proceeds_past_validation cfg w request \<and> \<not> truthy (error (query request)) \<and>
      code (query request) = Some c \<and> c \<noteq> [] \<and>
      snd (getToken cfg w c) = Inr T \<and> snd (getGitHubUser w T) = Some identity
      \<longrightarrow> redirects (callback cfg w request) =
            [error_url cfg ''An internal error occurred during callback processing.''])"
proof (intro conjI impI)
  assume "truthy (env ''GITHUB_CLIENT_ID'') \<and> truthy (env ''GITHUB_CLIENT_SECRET'') \<and>
    truthy (env ''GITHUB_CALLBACK_URL'') \<and> truthy (env ''FRONTEND_URL'') \<and>
    env ''GITHUB_REPO'' = Some r \<and> r \<noteq> []"
  then show "\<exists>loaded. load_config env = Inr loaded \<and> repo (github loaded) = r"
    using load_config_repo [of env r] by blast
next
  assume "\<not> str_includes (repo (github cfg)) CHR ''/''"
  then show "verifyUserPermission cfg w T username =
            ([], Inl (ErrorObj ''Invalid GITHUB_REPO format. Expected owner/repo.''))"
    by (rule verifyUserPermission_malformed)
next
  assume h: "\<not> str_includes (repo (github cfg)) CHR ''/'' \<and>
      proceeds_past_validation cfg w request \<and> \<not> truthy (error (query request)) \<and>
      code (query request) = Some c \<and> c \<noteq> [] \<and>
      snd (getToken cfg w c) = Inr T \<and> snd (getGitHubUser w T) = Some identity"
  then have ok: "\<not> state_check_fails (unsignCookie w (or_else (cookies request ''oauth_state'') []))
                (state (query request))"
    by (simp add: proceeds_iff)
  have "redirects (callback_try cfg w c) =
          [error_url cfg ''An internal error occurred during callback processing.'']"
    using h verifyUserPermission_malformed [of cfg w T "login identity"]
    by (simp add: callback_try_redirects)
  with callback_validated [OF ok, of cfg] h
  show "redirects (callback cfg w request) =
            [error_url cfg ''An internal error occurred during callback processing.'']"
    by (simp add: redirects_simps truthy_def or_else_Some_empty)
qed

theorem malformed_repo_is_per_request_witness:
  "load_config (demo_env ''acmesite'') = Inr (demo_config_with_repo ''acmesite'')
   \<and> \<not> str_includes (repo (github (demo_config_with_repo ''acmesite''))) CHR ''/''
   \<and> proceeds_past_validation (demo_config_with_repo ''acmesite'') (demo_world 200 ''write'')
        demo_ok_request
   \<and> snd (getToken (demo_config_with_repo ''acmesite'') (demo_world 200 ''write'') ''goodcode'')
       = Inr ''gho_T0ken''
   \<and> snd (getGitHubUser (demo_world 200 ''write'') ''gho_T0ken'') = Some demo_profile
   \<and> verifyUserPermission (demo_config_with_repo ''acmesite'') (demo_world 200 ''write'')
        ''gho_T0ken'' ''octocat''
       = ([], Inl (ErrorObj ''Invalid GITHUB_REPO format. Expected owner/repo.''))
   \<and> redirects (callback (demo_config_with_repo ''acmesite'') (demo_world 200 ''write'')
        demo_ok_request) =
       [error_url (demo_config_with_repo ''acmesite'')
          ''An internal error occurred during callback processing.'']"
proof -
  let ?cfg = "demo_config_with_repo ''acmesite''"
  let ?w = "demo_world 200 ''write''"
  have env: "truthy (demo_env ''acmesite'' ''GITHUB_CLIENT_ID'') \<and>
             truthy (demo_env ''acmesite'' ''GITHUB_CLIENT_SECRET'') \<and>
             truthy (demo_env ''acmesite'' ''GITHUB_CALLBACK_URL'') \<and>
             truthy (demo_env ''acmesite'' ''FRONTEND_URL'') \<and>
             demo_env ''acmesite'' ''GITHUB_REPO'' = Some ''acmesite'' \<and> ''acmesite'' \<noteq> []"
    by (simp add: demo_env_def truthy_def)
  have ld: "load_config (demo_env ''acmesite'') = Inr ?cfg"
    by (simp add: demo_load)
  have bad: "\<not> str_includes (repo (github ?cfg)) CHR ''/''"
    by (simp add: demo_config_with_repo_def str_includes_def)
  have p: "proceeds_past_validation ?cfg ?w demo_ok_request"
    using demo_ok_validates by (rule validated_proceeds)
  have e: "\<not> truthy (error (query demo_ok_request))"
    by (simp add: demo_ok_request_def demo_request_def truthy_def)
  have c: "code (query demo_ok_request) = Some ''goodcode''" "''goodcode'' \<noteq> []"
    by (simp_all add: demo_ok_request_def demo_request_def)
  have t: "snd (getToken ?cfg ?w ''goodcode'') = Inr ''gho_T0ken''"
    by (simp add: getToken_def Let_def demo_world_def)
  have u: "snd (getGitHubUser ?w ''gho_T0ken'') = Some demo_profile"
    by (simp add: getGitHubUser_def Let_def demo_world_def demo_profile_response_def ok_def)
  note m = malformed_repo_is_per_request
             [of "demo_env ''acmesite''" "''acmesite''" ?cfg ?w "''gho_T0ken''" "''octocat''"
                 demo_ok_request "''goodcode''" demo_profile]
  from m env ld have a1: "\<exists>loaded. load_config (demo_env ''acmesite'') = Inr loaded \<and>
                            repo (github loaded) = ''acmesite''"
    by blast
  from m bad have a2: "verifyUserPermission ?cfg ?w ''gho_T0ken'' ''octocat''
       = ([], Inl (ErrorObj ''Invalid GITHUB_REPO format. Expected owner/repo.''))"
    by blast
  from m bad p e c t u have a3: "redirects (callback ?cfg ?w demo_ok_request) =
       [error_url ?cfg ''An internal error occurred during callback processing.'']"
    by blast
  from ld bad p t u a2 a3 show ?thesis by blast
qed

text \<open>
  C8, as stated, fails: with \<^verbatim>\<open>GITHUB_REPO=acmesite\<close> the configuration loads, and a flow
  with a valid state, a good code, a token and a profile fails at the permission check
  because of the identifier.
\<close>

theorem malformed_repo_accepted_at_startup:
  "\<not> str_includes ''acmesite'' CHR ''/''
   \<and> load_config (demo_env ''acmesite'') = Inr (demo_config_with_repo ''acmesite'')
   \<and> repo (github (demo_config_with_repo ''acmesite'')) = ''acmesite''
   \<and> snd (verifyUserPermission (demo_config_with_repo ''acmesite'') (demo_world 200 ''write'')
            ''gho_T0ken'' ''octocat'')
       = Inl (ErrorObj ''Invalid GITHUB_REPO format. Expected owner/repo.'')
   \<and> redirects (callback (demo_config_with_repo ''acmesite'') (demo_world 200 ''write'')
        demo_ok_request) =
       [''/error?error=An%2520internal%2520error%2520occurred%2520during%2520callback%2520processing.&origin=https%3A%2F%2Fcms.example.com'']"
proof -
  let ?cfg = "demo_config_with_repo ''acmesite''"
  let ?w = "demo_world 200 ''write''"
  have n: "\<not> str_includes ''acmesite'' CHR ''/''" by (simp add: str_includes_def)
  have ld: "load_config (demo_env ''acmesite'') = Inr ?cfg" by (simp add: demo_load)
  have rp: "repo (github ?cfg) = ''acmesite''" by (simp add: demo_config_with_repo_def)
  have v: "verifyUserPermission ?cfg ?w ''gho_T0ken'' ''octocat''
       = ([], Inl (ErrorObj ''Invalid GITHUB_REPO format. Expected owner/repo.''))"
    using n by (simp add: verifyUserPermission_malformed rp)
  have t: "snd (getToken ?cfg ?w ''goodcode'') = Inr ''gho_T0ken''"
    by (simp add: getToken_def Let_def demo_world_def)
  have u: "snd (getGitHubUser ?w ''gho_T0ken'') = Some demo_profile"
    by (simp add: getGitHubUser_def Let_def demo_world_def demo_profile_response_def ok_def)
  have l: "login demo_profile = ''octocat''" by (simp add: demo_profile_def)
  have r: "redirects (callback_try ?cfg ?w ''goodcode'') =
       [error_url ?cfg ''An internal error occurred during callback processing.'']"
    using t u v l by (simp add: callback_try_redirects)
  have c: "code (query demo_ok_request) = Some ''goodcode''" "error (query demo_ok_request) = None"
    by (simp_all add: demo_ok_request_def demo_request_def)
  have url: "error_url ?cfg ''An internal error occurred during callback processing.''
     = ''/error?error=An%2520internal%2520error%2520occurred%2520during%2520callback%2520processing.&origin=https%3A%2F%2Fcms.example.com''"
    by code_simp
  from callback_validated [OF demo_ok_validates, of ?cfg 200 "''write''"] r c url
  have "redirects (callback ?cfg ?w demo_ok_request) =
       [''/error?error=An%2520internal%2520error%2520occurred%2520during%2520callback%2520processing.&origin=https%3A%2F%2Fcms.example.com'']"
    by (simp add: redirects_simps truthy_def or_else_def)
  with n ld rp v show ?thesis by simp
qed

end
